theory Spec2Isabelle
  imports Main
begin

section \<open>JSON documents and the standard library the client calls\<close>

text \<open>
  The client is written against Go's \<^verbatim>\<open>encoding/json\<close> and \<^verbatim>\<open>net/http\<close>.
  A JSON document is kept as a tree. An object is an association list, since Go decodes
  its members in the order they are written and a repeated key is decoded again.
  A number is kept according to its spelling: \<open>JInt n\<close> is a literal without fraction
  and exponent (the only kind Go accepts for an \<^verbatim>\<open>int\<close> field), \<open>JFloat s\<close> is any
  other number literal, with its text.
\<close>

datatype json =
    JNull
  | JBool bool
  | JInt int
  | JFloat string
  | JStr string
  | JArr "json list"
  | JObj "(string \<times> json) list"

text \<open>
  What the standard library decides and the repository does not:
  \<^item> \<open>NewRequest_error method url\<close>: the error of \<^verbatim>\<open>http.NewRequest\<close> on an invalid
    method or an unparsable URL, if any;
  \<^item> \<open>Parse body\<close>: the syntax check and scan of \<^verbatim>\<open>json.Unmarshal\<close>, which run over
    the whole input before anything is stored: the error text, or the document;
  \<^item> \<open>FoldName key\<close>: the case folding under which an object key that equals no field
    name exactly is still matched to a field;
  \<^item> \<open>TypeErrorText value field\<close>: the text of the \<^verbatim>\<open>UnmarshalTypeError\<close> for a JSON
    value that does not fit the Go type of a field.
  The theorems hold for every such library.
\<close>

record stdlib =
  NewRequest_error :: "string \<Rightarrow> string \<Rightarrow> string option"
  Parse :: "string \<Rightarrow> string + json"
  FoldName :: "string \<Rightarrow> string"
  TypeErrorText :: "json \<Rightarrow> string \<Rightarrow> string"

section \<open>Types.go: the error record\<close>

text \<open>
  \<^verbatim>\<open>type ApiError struct { Message string; Code int; Status *int }\<close>.
  The pointer \<^verbatim>\<open>*int\<close> is an option. Go's \<^verbatim>\<open>int\<close> is taken as 64 bits wide: the
  client does no arithmetic on it, and the width only matters when a number is decoded.
\<close>

record ApiError =
  Message :: string
  Code :: int
  Status :: "int option"

definition int_fits :: "int \<Rightarrow> bool" where
  "int_fits n \<longleftrightarrow> - (2 ^ 63) \<le> n \<and> n < 2 ^ 63"

text \<open>The verb \<^verbatim>\<open>%d\<close> of \<^verbatim>\<open>fmt.Sprintf\<close>: decimal digits, a minus sign when negative.\<close>

definition digit_char :: "nat \<Rightarrow> char" where
  "digit_char d = ''0123456789'' ! (d mod 10)"

fun dec_digits :: "nat \<Rightarrow> string" where
  "dec_digits n = (if n < 10 then [digit_char n] else dec_digits (n div 10) @ [digit_char (n mod 10)])"

definition Sprintf_d :: "int \<Rightarrow> string" where
  "Sprintf_d n = (if n < 0 then CHR ''-'' # dec_digits (nat (- n)) else dec_digits (nat n))"

text \<open>\<^verbatim>\<open>func (e *ApiError) Error() string\<close>\<close>

definition Error :: "ApiError \<Rightarrow> string" where
  "Error e =
     (case Status e of
        Some s \<Rightarrow> ''KeyMint API Error (code: '' @ Sprintf_d (Code e) @ '', status: '' @ Sprintf_d s
                  @ ''): '' @ Message e
      | None \<Rightarrow> ''KeyMint API Error (code: '' @ Sprintf_d (Code e) @ ''): '' @ Message e)"

declare dec_digits.simps [simp del]

section \<open>Index.go: the client and its construction\<close>

text \<open>
  \<^verbatim>\<open>type Client struct { baseURL, accessToken string; httpClient *http.Client }\<close>.
  Of the HTTP client only the timeout is set, a \<^verbatim>\<open>time.Duration\<close> in nanoseconds.
\<close>

record http_Client =
  Timeout :: int

record Client =
  baseURL :: string
  accessToken :: string
  httpClient :: http_Client

definition Second :: int where
  "Second = 1000000000"

text \<open>
  \<^verbatim>\<open>func New(accessToken string, baseURL string) (*Client, error)\<close>.
  The result is either the error text of \<^verbatim>\<open>fmt.Errorf\<close>, with a nil client, or the client.
  \<open>New\<close> is given neither the library nor the network: the source calls neither.
\<close>

definition New :: "string \<Rightarrow> string \<Rightarrow> string + Client" where
  "New accessToken' baseURL' =
     (if accessToken' = '''' then Inl ''access token is required to initialize the client''
      else
        let baseURL' = (if baseURL' = '''' then ''https://api.keymint.dev'' else baseURL')
        in Inr \<lparr>baseURL = baseURL', accessToken = accessToken',
                httpClient = \<lparr>Timeout = 30 * Second\<rparr>\<rparr>)"

section \<open>The network\<close>

text \<open>
  A request as the client builds it: the method and the URL string handed to
  \<^verbatim>\<open>http.NewRequest\<close>, the query parameters added to it afterwards (\<open>None\<close> when the
  raw query is left alone), the headers, and the JSON document sent as body.
\<close>

record Request =
  Method :: string
  URL :: string
  Query :: "(string \<times> string) list option"
  Header :: "(string \<times> string) list"
  Body :: "json option"

text \<open>
  A response whose headers have arrived: its status code, and what \<^verbatim>\<open>io.ReadAll\<close> makes
  of its body, an error text or the bytes.
\<close>

record Response =
  StatusCode :: int
  ReadAll :: "string + string"

text \<open>
  The network is state: the requests handed to \<^verbatim>\<open>httpClient.Do\<close> so far, and the answer
  of the other side to a request after such a history, an error text (no response) or a
  response.
\<close>

record net =
  respond :: "Request list \<Rightarrow> Request \<Rightarrow> string + Response"
  sent :: "Request list"

definition Do :: "Request \<Rightarrow> net \<Rightarrow> (string + Response) \<times> net" where
  "Do req n = (respond n (sent n) req, n\<lparr>sent := sent n @ [req]\<rparr>)"

definition NewRequest :: "stdlib \<Rightarrow> string \<Rightarrow> string \<Rightarrow> json option \<Rightarrow> string + Request" where
  "NewRequest L method url body =
     (case NewRequest_error L method url of
        Some err \<Rightarrow> Inl err
      | None \<Rightarrow> Inr \<lparr>Method = method, URL = url, Query = None, Header = [], Body = body\<rparr>)"

text \<open>\<^verbatim>\<open>req.Header.Set(key, value)\<close> replaces what the header had under the key.\<close>

definition Header_Set :: "string \<Rightarrow> string \<Rightarrow> Request \<Rightarrow> Request" where
  "Header_Set key v req = req\<lparr>Header := filter (\<lambda>kv. fst kv \<noteq> key) (Header req) @ [(key, v)]\<rparr>"

text \<open>
  \<^verbatim>\<open>if queryParams != nil { q := req.URL.Query(); for key, value := range queryParams
  { q.Add(key, value) }; req.URL.RawQuery = q.Encode() }\<close>. The map is an association list
  with distinct keys; \<^verbatim>\<open>Encode\<close> sorts by key, so its order does not reach the wire.
\<close>

definition add_query :: "(string \<times> string) list option \<Rightarrow> Request \<Rightarrow> Request" where
  "add_query queryParams req =
     (case queryParams of None \<Rightarrow> req | Some ps \<Rightarrow> req\<lparr>Query := Some ps\<rparr>)"

section \<open>Decoding with encoding/json\<close>

text \<open>
  \<^verbatim>\<open>json.Unmarshal(body, target)\<close>: the input is checked as a whole first, and a syntax
  error leaves the target as it was. Then the document is stored into the target by a
  decoder that depends on the target's type. A decoder returns the first type error it
  saved, if any, and the target as it left it: a value that does not fit its field is
  skipped and decoding goes on.
\<close>

definition Unmarshal ::
  "stdlib \<Rightarrow> (json \<Rightarrow> 'a \<Rightarrow> string option \<times> 'a) \<Rightarrow> string \<Rightarrow> 'a \<Rightarrow> string option \<times> 'a" where
  "Unmarshal L decode body target =
     (case Parse L body of Inl err \<Rightarrow> (Some err, target) | Inr doc \<Rightarrow> decode doc target)"

definition saveError :: "string option \<Rightarrow> string option \<Rightarrow> string option" where
  "saveError saved err = (case saved of None \<Rightarrow> err | Some e \<Rightarrow> Some e)"

text \<open>Storing a JSON value into a field of kind string, int and pointer to int.\<close>

definition store_string :: "stdlib \<Rightarrow> string \<Rightarrow> json \<Rightarrow> string \<Rightarrow> string option \<times> string" where
  "store_string L field v old =
     (case v of
        JNull \<Rightarrow> (None, old)
      | JStr s \<Rightarrow> (None, s)
      | _ \<Rightarrow> (Some (TypeErrorText L v field), old))"

definition store_int :: "stdlib \<Rightarrow> string \<Rightarrow> json \<Rightarrow> int \<Rightarrow> string option \<times> int" where
  "store_int L field v old =
     (case v of
        JNull \<Rightarrow> (None, old)
      | JInt n \<Rightarrow> if int_fits n then (None, n) else (Some (TypeErrorText L v field), old)
      | _ \<Rightarrow> (Some (TypeErrorText L v field), old))"

text \<open>
  A pointer field is set to nil by \<^verbatim>\<open>null\<close>; for any other value a nil pointer is first
  made to point to a fresh zero, and the value is stored there.
\<close>

definition store_int_ptr :: "stdlib \<Rightarrow> string \<Rightarrow> json \<Rightarrow> int option \<Rightarrow> string option \<times> int option" where
  "store_int_ptr L field v old =
     (case v of
        JNull \<Rightarrow> (None, None)
      | _ \<Rightarrow> (case store_int L field v (case old of None \<Rightarrow> 0 | Some n \<Rightarrow> n) of
                (err, n) \<Rightarrow> (err, Some n)))"

text \<open>
  The field of \<^verbatim>\<open>ApiError\<close> that an object key names, by the tags
  \<^verbatim>\<open>json:"message"\<close>, \<^verbatim>\<open>json:"code"\<close>, \<^verbatim>\<open>json:"status,omitempty"\<close>: an exact match
  first, then the first field with the same folded name.
\<close>

datatype ApiError_field = Field_Message | Field_Code | Field_Status

definition ApiError_field_of :: "stdlib \<Rightarrow> string \<Rightarrow> ApiError_field option" where
  "ApiError_field_of L key =
     (if key = ''message'' then Some Field_Message
      else if key = ''code'' then Some Field_Code
      else if key = ''status'' then Some Field_Status
      else if FoldName L key = FoldName L ''message'' then Some Field_Message
      else if FoldName L key = FoldName L ''code'' then Some Field_Code
      else if FoldName L key = FoldName L ''status'' then Some Field_Status
      else None)"

definition ApiError_member ::
  "stdlib \<Rightarrow> string option \<times> ApiError \<Rightarrow> string \<times> json \<Rightarrow> string option \<times> ApiError" where
  "ApiError_member L st kv =
     (case st of (saved, a) \<Rightarrow>
      case kv of (key, v) \<Rightarrow>
        (case ApiError_field_of L key of
           None \<Rightarrow> (saved, a)
         | Some Field_Message \<Rightarrow>
             (case store_string L ''message'' v (Message a) of
                (err, m) \<Rightarrow> (saveError saved err, a\<lparr>Message := m\<rparr>))
         | Some Field_Code \<Rightarrow>
             (case store_int L ''code'' v (Code a) of
                (err, c) \<Rightarrow> (saveError saved err, a\<lparr>Code := c\<rparr>))
         | Some Field_Status \<Rightarrow>
             (case store_int_ptr L ''status'' v (Status a) of
                (err, s) \<Rightarrow> (saveError saved err, a\<lparr>Status := s\<rparr>))))"

definition decode_ApiError :: "stdlib \<Rightarrow> json \<Rightarrow> ApiError \<Rightarrow> string option \<times> ApiError" where
  "decode_ApiError L doc a =
     (case doc of
        JNull \<Rightarrow> (None, a)
      | JObj members \<Rightarrow> foldl (ApiError_member L) (None, a) members
      | _ \<Rightarrow> (Some (TypeErrorText L doc ''''), a))"

text \<open>\<^verbatim>\<open>var apiErr ApiError\<close>\<close>

definition zero_ApiError :: ApiError where
  "zero_ApiError = \<lparr>Message = '''', Code = 0, Status = None\<rparr>"

section \<open>Index.go: the three request primitives\<close>

text \<open>
  An argument of type \<^verbatim>\<open>interface{}\<close> carries its type, from which the library derives
  the encoder or decoder; here it is passed as the function and the value. The pointer
  \<^verbatim>\<open>result\<close> is passed as its pointee and returned as the pointee after the call, next
  to the error (\<open>None\<close> for nil).
\<close>

definition handleRequest ::
  "stdlib \<Rightarrow> Client \<Rightarrow> string \<Rightarrow> string \<Rightarrow> ('p \<Rightarrow> string + json) \<Rightarrow> 'p
     \<Rightarrow> (json \<Rightarrow> 'r \<Rightarrow> string option \<times> 'r) \<Rightarrow> 'r \<Rightarrow> net \<Rightarrow> (ApiError option \<times> 'r) \<times> net" where
  "handleRequest L c method endpoint marshal params decode result n =
     (case marshal params of
        Inl err \<Rightarrow>
          ((Some \<lparr>Message = ''failed to marshal request: '' @ err, Code = - 1, Status = None\<rparr>, result), n)
      | Inr jsonData \<Rightarrow>
     (case NewRequest L method (baseURL c @ endpoint) (Some jsonData) of
        Inl err \<Rightarrow>
          ((Some \<lparr>Message = ''failed to create request: '' @ err, Code = - 1, Status = None\<rparr>, result), n)
      | Inr req0 \<Rightarrow>
     (let req = Header_Set ''Content-Type'' ''application/json''
                  (Header_Set ''Authorization'' (''Bearer '' @ accessToken c) req0)
      in case Do req n of
        (Inl err, n') \<Rightarrow>
          ((Some \<lparr>Message = ''request failed: '' @ err, Code = - 1, Status = None\<rparr>, result), n')
      | (Inr resp, n') \<Rightarrow>
     (case ReadAll resp of
        Inl err \<Rightarrow>
          ((Some \<lparr>Message = ''failed to read response: '' @ err, Code = - 1,
                   Status = Some (StatusCode resp)\<rparr>, result), n')
      | Inr body \<Rightarrow>
          if StatusCode resp \<ge> 400 then
            (case Unmarshal L (decode_ApiError L) body zero_ApiError of
               (err, apiErr) \<Rightarrow>
                 if err = None \<and> Message apiErr \<noteq> ''''
                 then ((Some (apiErr\<lparr>Status := Some (StatusCode resp)\<rparr>), result), n')
                 else ((Some \<lparr>Message = ''API error: '' @ body, Code = - 1,
                               Status = Some (StatusCode resp)\<rparr>, result), n'))
          else
            (case Unmarshal L decode body result of
               (Some err, result') \<Rightarrow>
                 ((Some \<lparr>Message = ''failed to unmarshal response: '' @ err, Code = - 1,
                          Status = Some (StatusCode resp)\<rparr>, result'), n')
             | (None, result') \<Rightarrow> ((None, result'), n'))))))"

definition handleGetRequest ::
  "stdlib \<Rightarrow> Client \<Rightarrow> string \<Rightarrow> (string \<times> string) list option
     \<Rightarrow> (json \<Rightarrow> 'r \<Rightarrow> string option \<times> 'r) \<Rightarrow> 'r \<Rightarrow> net \<Rightarrow> (ApiError option \<times> 'r) \<times> net" where
  "handleGetRequest L c endpoint queryParams decode result n =
     (case NewRequest L ''GET'' (baseURL c @ endpoint) None of
        Inl err \<Rightarrow>
          ((Some \<lparr>Message = ''failed to create request: '' @ err, Code = - 1, Status = None\<rparr>, result), n)
      | Inr req0 \<Rightarrow>
     (let req = Header_Set ''Content-Type'' ''application/json''
                  (Header_Set ''Authorization'' (''Bearer '' @ accessToken c)
                     (add_query queryParams req0))
      in case Do req n of
        (Inl err, n') \<Rightarrow>
          ((Some \<lparr>Message = ''request failed: '' @ err, Code = - 1, Status = None\<rparr>, result), n')
      | (Inr resp, n') \<Rightarrow>
     (case ReadAll resp of
        Inl err \<Rightarrow>
          ((Some \<lparr>Message = ''failed to read response: '' @ err, Code = - 1,
                   Status = Some (StatusCode resp)\<rparr>, result), n')
      | Inr body \<Rightarrow>
          if StatusCode resp \<ge> 400 then
            (case Unmarshal L (decode_ApiError L) body zero_ApiError of
               (err, apiErr) \<Rightarrow>
                 if err = None \<and> Message apiErr \<noteq> ''''
                 then ((Some (apiErr\<lparr>Status := Some (StatusCode resp)\<rparr>), result), n')
                 else ((Some \<lparr>Message = ''API error: '' @ body, Code = - 1,
                               Status = Some (StatusCode resp)\<rparr>, result), n'))
          else
            (case Unmarshal L decode body result of
               (Some err, result') \<Rightarrow>
                 ((Some \<lparr>Message = ''failed to unmarshal response: '' @ err, Code = - 1,
                          Status = Some (StatusCode resp)\<rparr>, result'), n')
             | (None, result') \<Rightarrow> ((None, result'), n')))))"

definition handleDeleteRequest ::
  "stdlib \<Rightarrow> Client \<Rightarrow> string \<Rightarrow> (string \<times> string) list option
     \<Rightarrow> (json \<Rightarrow> 'r \<Rightarrow> string option \<times> 'r) \<Rightarrow> 'r \<Rightarrow> net \<Rightarrow> (ApiError option \<times> 'r) \<times> net" where
  "handleDeleteRequest L c endpoint queryParams decode result n =
     (case NewRequest L ''DELETE'' (baseURL c @ endpoint) None of
        Inl err \<Rightarrow>
          ((Some \<lparr>Message = ''failed to create request: '' @ err, Code = - 1, Status = None\<rparr>, result), n)
      | Inr req0 \<Rightarrow>
     (let req = Header_Set ''Content-Type'' ''application/json''
                  (Header_Set ''Authorization'' (''Bearer '' @ accessToken c)
                     (add_query queryParams req0))
      in case Do req n of
        (Inl err, n') \<Rightarrow>
          ((Some \<lparr>Message = ''request failed: '' @ err, Code = - 1, Status = None\<rparr>, result), n')
      | (Inr resp, n') \<Rightarrow>
     (case ReadAll resp of
        Inl err \<Rightarrow>
          ((Some \<lparr>Message = ''failed to read response: '' @ err, Code = - 1,
                   Status = Some (StatusCode resp)\<rparr>, result), n')
      | Inr body \<Rightarrow>
          if StatusCode resp \<ge> 400 then
            (case Unmarshal L (decode_ApiError L) body zero_ApiError of
               (err, apiErr) \<Rightarrow>
                 if err = None \<and> Message apiErr \<noteq> ''''
                 then ((Some (apiErr\<lparr>Status := Some (StatusCode resp)\<rparr>), result), n')
                 else ((Some \<lparr>Message = ''API error: '' @ body, Code = - 1,
                               Status = Some (StatusCode resp)\<rparr>, result), n'))
          else
            (case Unmarshal L decode body result of
               (Some err, result') \<Rightarrow>
                 ((Some \<lparr>Message = ''failed to unmarshal response: '' @ err, Code = - 1,
                          Status = Some (StatusCode resp)\<rparr>, result'), n')
             | (None, result') \<Rightarrow> ((None, result'), n')))))"

section \<open>Types.go: request parameters and their encoding\<close>

text \<open>
  Field names carry a prefix for their struct, since a field name is a constant here.
  A pointer field is an option. \<^verbatim>\<open>json.Marshal\<close> writes the fields of a struct in the
  order they are declared, under the key of their tag; it leaves out a field tagged
  \<^verbatim>\<open>omitempty\<close> whose pointer is nil, and writes the pointee of any other pointer.
  None of these types can make it fail.
\<close>

definition omitempty :: "string \<Rightarrow> json option \<Rightarrow> (string \<times> json) list" where
  "omitempty key v = (case v of None \<Rightarrow> [] | Some j \<Rightarrow> [(key, j)])"

record NewCustomer =
  nc_Name :: string
  nc_Email :: "string option"

definition json_NewCustomer :: "NewCustomer \<Rightarrow> json" where
  "json_NewCustomer p =
     JObj ([(''name'', JStr (nc_Name p))] @ omitempty ''email'' (map_option JStr (nc_Email p)))"

record CreateKeyParams =
  ckp_ProductID :: string
  ckp_MaxActivations :: "string option"
  ckp_ExpiryDate :: "string option"
  ckp_CustomerID :: "string option"
  ckp_NewCustomer :: "NewCustomer option"

definition Marshal_CreateKeyParams :: "CreateKeyParams \<Rightarrow> string + json" where
  "Marshal_CreateKeyParams p =
     Inr (JObj ([(''productId'', JStr (ckp_ProductID p))]
          @ omitempty ''maxActivations'' (map_option JStr (ckp_MaxActivations p))
          @ omitempty ''expiryDate'' (map_option JStr (ckp_ExpiryDate p))
          @ omitempty ''customerId'' (map_option JStr (ckp_CustomerID p))
          @ omitempty ''newCustomer'' (map_option json_NewCustomer (ckp_NewCustomer p))))"

record ActivateKeyParams =
  akp_ProductID :: string
  akp_LicenseKey :: string
  akp_HostID :: "string option"
  akp_DeviceTag :: "string option"

definition Marshal_ActivateKeyParams :: "ActivateKeyParams \<Rightarrow> string + json" where
  "Marshal_ActivateKeyParams p =
     Inr (JObj ([(''productId'', JStr (akp_ProductID p)), (''licenseKey'', JStr (akp_LicenseKey p))]
          @ omitempty ''hostId'' (map_option JStr (akp_HostID p))
          @ omitempty ''deviceTag'' (map_option JStr (akp_DeviceTag p))))"

record DeactivateKeyParams =
  dkp_ProductID :: string
  dkp_LicenseKey :: string
  dkp_HostID :: "string option"

definition Marshal_DeactivateKeyParams :: "DeactivateKeyParams \<Rightarrow> string + json" where
  "Marshal_DeactivateKeyParams p =
     Inr (JObj ([(''productId'', JStr (dkp_ProductID p)), (''licenseKey'', JStr (dkp_LicenseKey p))]
          @ omitempty ''hostId'' (map_option JStr (dkp_HostID p))))"

record GetKeyParams =
  gkp_ProductID :: string
  gkp_LicenseKey :: string

record BlockKeyParams =
  bkp_ProductID :: string
  bkp_LicenseKey :: string

definition Marshal_BlockKeyParams :: "BlockKeyParams \<Rightarrow> string + json" where
  "Marshal_BlockKeyParams p =
     Inr (JObj [(''productId'', JStr (bkp_ProductID p)), (''licenseKey'', JStr (bkp_LicenseKey p))])"

record UnblockKeyParams =
  ukp_ProductID :: string
  ukp_LicenseKey :: string

definition Marshal_UnblockKeyParams :: "UnblockKeyParams \<Rightarrow> string + json" where
  "Marshal_UnblockKeyParams p =
     Inr (JObj [(''productId'', JStr (ukp_ProductID p)), (''licenseKey'', JStr (ukp_LicenseKey p))])"

record CreateCustomerParams =
  ccp_Name :: string
  ccp_Email :: string

definition Marshal_CreateCustomerParams :: "CreateCustomerParams \<Rightarrow> string + json" where
  "Marshal_CreateCustomerParams p =
     Inr (JObj [(''name'', JStr (ccp_Name p)), (''email'', JStr (ccp_Email p))])"

record GetCustomerWithKeysParams =
  gcwkp_CustomerID :: string

record UpdateCustomerParams =
  ucp_CustomerID :: string
  ucp_Name :: "string option"
  ucp_Email :: "string option"
  ucp_Active :: "bool option"

definition Marshal_UpdateCustomerParams :: "UpdateCustomerParams \<Rightarrow> string + json" where
  "Marshal_UpdateCustomerParams p =
     Inr (JObj ([(''customerId'', JStr (ucp_CustomerID p))]
          @ omitempty ''name'' (map_option JStr (ucp_Name p))
          @ omitempty ''email'' (map_option JStr (ucp_Email p))
          @ omitempty ''active'' (map_option JBool (ucp_Active p))))"

record ToggleCustomerStatusParams =
  tcsp_CustomerID :: string

definition Marshal_ToggleCustomerStatusParams :: "ToggleCustomerStatusParams \<Rightarrow> string + json" where
  "Marshal_ToggleCustomerStatusParams p = Inr (JObj [(''customerId'', JStr (tcsp_CustomerID p))])"

record GetCustomerByIdParams =
  gcbip_CustomerID :: string

record DeleteCustomerParams =
  dcp_CustomerID :: string

section \<open>Types.go: responses and their zero values\<close>

text \<open>
  \<^verbatim>\<open>var result T\<close> declares the zero value of \<open>T\<close>: the empty string, 0, false, the nil
  pointer and the nil slice, in every field.
\<close>

record CreateKeyResponse =
  ckr_Code :: int
  ckr_Key :: string

definition zero_CreateKeyResponse :: CreateKeyResponse where
  "zero_CreateKeyResponse = \<lparr>ckr_Code = 0, ckr_Key = ''''\<rparr>"

record ActivateKeyResponse =
  akr_Code :: int
  akr_Message :: string
  akr_LicenseeName :: "string option"
  akr_LicenseeEmail :: "string option"

definition zero_ActivateKeyResponse :: ActivateKeyResponse where
  "zero_ActivateKeyResponse =
     \<lparr>akr_Code = 0, akr_Message = '''', akr_LicenseeName = None, akr_LicenseeEmail = None\<rparr>"

record DeactivateKeyResponse =
  dkr_Message :: string
  dkr_Code :: int

definition zero_DeactivateKeyResponse :: DeactivateKeyResponse where
  "zero_DeactivateKeyResponse = \<lparr>dkr_Message = '''', dkr_Code = 0\<rparr>"

record DeviceDetails =
  dd_HostID :: string
  dd_DeviceTag :: "string option"
  dd_IPAddress :: "string option"
  dd_ActivationTime :: string

record LicenseDetails =
  ld_ID :: string
  ld_Key :: string
  ld_ProductID :: string
  ld_MaxActivations :: int
  ld_Activations :: int
  ld_Devices :: "DeviceDetails list"
  ld_Activated :: bool
  ld_ExpirationDate :: "string option"

definition zero_LicenseDetails :: LicenseDetails where
  "zero_LicenseDetails =
     \<lparr>ld_ID = '''', ld_Key = '''', ld_ProductID = '''', ld_MaxActivations = 0, ld_Activations = 0,
      ld_Devices = [], ld_Activated = False, ld_ExpirationDate = None\<rparr>"

record CustomerDetails =
  cd_ID :: string
  cd_Name :: "string option"
  cd_Email :: "string option"
  cd_Active :: bool

record GetKeyResponse_Data =
  gkd_License :: LicenseDetails
  gkd_Customer :: "CustomerDetails option"

record GetKeyResponse =
  gkr_Code :: int
  gkr_Data :: GetKeyResponse_Data

definition zero_GetKeyResponse :: GetKeyResponse where
  "zero_GetKeyResponse =
     \<lparr>gkr_Code = 0, gkr_Data = \<lparr>gkd_License = zero_LicenseDetails, gkd_Customer = None\<rparr>\<rparr>"

record BlockKeyResponse =
  bkr_Message :: string
  bkr_Code :: int

definition zero_BlockKeyResponse :: BlockKeyResponse where
  "zero_BlockKeyResponse = \<lparr>bkr_Message = '''', bkr_Code = 0\<rparr>"

record UnblockKeyResponse =
  ukr_Message :: string
  ukr_Code :: int

definition zero_UnblockKeyResponse :: UnblockKeyResponse where
  "zero_UnblockKeyResponse = \<lparr>ukr_Message = '''', ukr_Code = 0\<rparr>"

record CreateCustomerResponse_Data =
  ccd_ID :: string
  ccd_Name :: string
  ccd_Email :: string

record CreateCustomerResponse =
  ccr_ID :: string
  ccr_Action :: string
  ccr_Status :: bool
  ccr_Message :: string
  ccr_Data :: CreateCustomerResponse_Data
  ccr_Code :: int

definition zero_CreateCustomerResponse :: CreateCustomerResponse where
  "zero_CreateCustomerResponse =
     \<lparr>ccr_ID = '''', ccr_Action = '''', ccr_Status = False, ccr_Message = '''',
      ccr_Data = \<lparr>ccd_ID = '''', ccd_Name = '''', ccd_Email = ''''\<rparr>, ccr_Code = 0\<rparr>"

record Customer =
  cu_ID :: string
  cu_Name :: string
  cu_Email :: string
  cu_Active :: bool
  cu_CreatedAt :: string
  cu_UpdatedAt :: string
  cu_CreatedBy :: string

definition zero_Customer :: Customer where
  "zero_Customer =
     \<lparr>cu_ID = '''', cu_Name = '''', cu_Email = '''', cu_Active = False, cu_CreatedAt = '''',
      cu_UpdatedAt = '''', cu_CreatedBy = ''''\<rparr>"

record GetAllCustomersResponse =
  gacr_Action :: string
  gacr_Status :: bool
  gacr_Data :: "Customer list"
  gacr_Code :: int

definition zero_GetAllCustomersResponse :: GetAllCustomersResponse where
  "zero_GetAllCustomersResponse =
     \<lparr>gacr_Action = '''', gacr_Status = False, gacr_Data = [], gacr_Code = 0\<rparr>"

record CustomerLicenseKey =
  clk_ID :: string
  clk_Key :: string
  clk_ProductID :: string
  clk_MaxActivations :: int
  clk_Activations :: int
  clk_Activated :: bool
  clk_ExpirationDate :: "string option"

record GetCustomerWithKeysResponse_Data =
  gcwkd_Customer :: Customer
  gcwkd_LicenseKeys :: "CustomerLicenseKey list"

record GetCustomerWithKeysResponse =
  gcwkr_Action :: string
  gcwkr_Status :: bool
  gcwkr_Data :: GetCustomerWithKeysResponse_Data
  gcwkr_Code :: int

definition zero_GetCustomerWithKeysResponse :: GetCustomerWithKeysResponse where
  "zero_GetCustomerWithKeysResponse =
     \<lparr>gcwkr_Action = '''', gcwkr_Status = False,
      gcwkr_Data = \<lparr>gcwkd_Customer = zero_Customer, gcwkd_LicenseKeys = []\<rparr>, gcwkr_Code = 0\<rparr>"

record UpdateCustomerResponse =
  ucr_Action :: string
  ucr_Status :: bool
  ucr_Message :: string
  ucr_Data :: Customer
  ucr_Code :: int

definition zero_UpdateCustomerResponse :: UpdateCustomerResponse where
  "zero_UpdateCustomerResponse =
     \<lparr>ucr_Action = '''', ucr_Status = False, ucr_Message = '''', ucr_Data = zero_Customer,
      ucr_Code = 0\<rparr>"

record ToggleCustomerStatusResponse =
  tcsr_Action :: string
  tcsr_Status :: bool
  tcsr_Message :: string
  tcsr_Code :: int

definition zero_ToggleCustomerStatusResponse :: ToggleCustomerStatusResponse where
  "zero_ToggleCustomerStatusResponse =
     \<lparr>tcsr_Action = '''', tcsr_Status = False, tcsr_Message = '''', tcsr_Code = 0\<rparr>"

record GetCustomerByIdResponse =
  gcbir_Action :: string
  gcbir_Status :: bool
  gcbir_Data :: "Customer list"
  gcbir_Code :: int

definition zero_GetCustomerByIdResponse :: GetCustomerByIdResponse where
  "zero_GetCustomerByIdResponse =
     \<lparr>gcbir_Action = '''', gcbir_Status = False, gcbir_Data = [], gcbir_Code = 0\<rparr>"

record DeleteCustomerResponse =
  dcr_Action :: string
  dcr_Status :: bool
  dcr_Message :: string
  dcr_Code :: int

definition zero_DeleteCustomerResponse :: DeleteCustomerResponse where
  "zero_DeleteCustomerResponse =
     \<lparr>dcr_Action = '''', dcr_Status = False, dcr_Message = '''', dcr_Code = 0\<rparr>"

section \<open>Index.go: the thirteen operations\<close>

text \<open>
  The decoder that \<^verbatim>\<open>encoding/json\<close> derives for each response type is a parameter:
  nothing below depends on what it stores. Every operation returns the pointee of the
  pointer it returns, which is never nil, next to the error.
\<close>

type_synonym 'r decoder = "json \<Rightarrow> 'r \<Rightarrow> string option \<times> 'r"

record decoders =
  decode_CreateKeyResponse :: "CreateKeyResponse decoder"
  decode_ActivateKeyResponse :: "ActivateKeyResponse decoder"
  decode_DeactivateKeyResponse :: "DeactivateKeyResponse decoder"
  decode_GetKeyResponse :: "GetKeyResponse decoder"
  decode_BlockKeyResponse :: "BlockKeyResponse decoder"
  decode_UnblockKeyResponse :: "UnblockKeyResponse decoder"
  decode_CreateCustomerResponse :: "CreateCustomerResponse decoder"
  decode_GetAllCustomersResponse :: "GetAllCustomersResponse decoder"
  decode_GetCustomerWithKeysResponse :: "GetCustomerWithKeysResponse decoder"
  decode_UpdateCustomerResponse :: "UpdateCustomerResponse decoder"
  decode_DeleteCustomerResponse :: "DeleteCustomerResponse decoder"
  decode_ToggleCustomerStatusResponse :: "ToggleCustomerStatusResponse decoder"
  decode_GetCustomerByIdResponse :: "GetCustomerByIdResponse decoder"

text \<open>\<^verbatim>\<open>return &result, err\<close>\<close>

definition returning :: "(ApiError option \<times> 'r) \<times> net \<Rightarrow> ('r \<times> ApiError option) \<times> net" where
  "returning x = (case x of ((err, result), n') \<Rightarrow> ((result, err), n'))"

definition CreateKey ::
  "stdlib \<Rightarrow> decoders \<Rightarrow> Client \<Rightarrow> CreateKeyParams \<Rightarrow> net \<Rightarrow> (CreateKeyResponse \<times> ApiError option) \<times> net" where
  "CreateKey L D c params n =
     returning (handleRequest L c ''POST'' ''/key'' Marshal_CreateKeyParams params
       (decode_CreateKeyResponse D) zero_CreateKeyResponse n)"

definition ActivateKey ::
  "stdlib \<Rightarrow> decoders \<Rightarrow> Client \<Rightarrow> ActivateKeyParams \<Rightarrow> net \<Rightarrow> (ActivateKeyResponse \<times> ApiError option) \<times> net" where
  "ActivateKey L D c params n =
     returning (handleRequest L c ''POST'' ''/key/activate'' Marshal_ActivateKeyParams params
       (decode_ActivateKeyResponse D) zero_ActivateKeyResponse n)"

definition DeactivateKey ::
  "stdlib \<Rightarrow> decoders \<Rightarrow> Client \<Rightarrow> DeactivateKeyParams \<Rightarrow> net
     \<Rightarrow> (DeactivateKeyResponse \<times> ApiError option) \<times> net" where
  "DeactivateKey L D c params n =
     returning (handleRequest L c ''POST'' ''/key/deactivate'' Marshal_DeactivateKeyParams params
       (decode_DeactivateKeyResponse D) zero_DeactivateKeyResponse n)"

definition GetKey ::
  "stdlib \<Rightarrow> decoders \<Rightarrow> Client \<Rightarrow> GetKeyParams \<Rightarrow> net \<Rightarrow> (GetKeyResponse \<times> ApiError option) \<times> net" where
  "GetKey L D c params n =
     (let queryParams = Some [(''productId'', gkp_ProductID params),
                              (''licenseKey'', gkp_LicenseKey params)]
      in returning (handleGetRequest L c ''/key'' queryParams
           (decode_GetKeyResponse D) zero_GetKeyResponse n))"

definition BlockKey ::
  "stdlib \<Rightarrow> decoders \<Rightarrow> Client \<Rightarrow> BlockKeyParams \<Rightarrow> net \<Rightarrow> (BlockKeyResponse \<times> ApiError option) \<times> net" where
  "BlockKey L D c params n =
     returning (handleRequest L c ''POST'' ''/key/block'' Marshal_BlockKeyParams params
       (decode_BlockKeyResponse D) zero_BlockKeyResponse n)"

definition UnblockKey ::
  "stdlib \<Rightarrow> decoders \<Rightarrow> Client \<Rightarrow> UnblockKeyParams \<Rightarrow> net \<Rightarrow> (UnblockKeyResponse \<times> ApiError option) \<times> net" where
  "UnblockKey L D c params n =
     returning (handleRequest L c ''POST'' ''/key/unblock'' Marshal_UnblockKeyParams params
       (decode_UnblockKeyResponse D) zero_UnblockKeyResponse n)"

definition CreateCustomer ::
  "stdlib \<Rightarrow> decoders \<Rightarrow> Client \<Rightarrow> CreateCustomerParams \<Rightarrow> net
     \<Rightarrow> (CreateCustomerResponse \<times> ApiError option) \<times> net" where
  "CreateCustomer L D c params n =
     returning (handleRequest L c ''POST'' ''/customer'' Marshal_CreateCustomerParams params
       (decode_CreateCustomerResponse D) zero_CreateCustomerResponse n)"

definition GetAllCustomers ::
  "stdlib \<Rightarrow> decoders \<Rightarrow> Client \<Rightarrow> net \<Rightarrow> (GetAllCustomersResponse \<times> ApiError option) \<times> net" where
  "GetAllCustomers L D c n =
     returning (handleGetRequest L c ''/customer'' None
       (decode_GetAllCustomersResponse D) zero_GetAllCustomersResponse n)"

definition GetCustomerWithKeys ::
  "stdlib \<Rightarrow> decoders \<Rightarrow> Client \<Rightarrow> GetCustomerWithKeysParams \<Rightarrow> net
     \<Rightarrow> (GetCustomerWithKeysResponse \<times> ApiError option) \<times> net" where
  "GetCustomerWithKeys L D c params n =
     (let queryParams = Some [(''customerId'', gcwkp_CustomerID params)]
      in returning (handleGetRequest L c ''/customer/keys'' queryParams
           (decode_GetCustomerWithKeysResponse D) zero_GetCustomerWithKeysResponse n))"

definition UpdateCustomer ::
  "stdlib \<Rightarrow> decoders \<Rightarrow> Client \<Rightarrow> UpdateCustomerParams \<Rightarrow> net
     \<Rightarrow> (UpdateCustomerResponse \<times> ApiError option) \<times> net" where
  "UpdateCustomer L D c params n =
     returning (handleRequest L c ''PUT'' ''/customer/by-id'' Marshal_UpdateCustomerParams params
       (decode_UpdateCustomerResponse D) zero_UpdateCustomerResponse n)"

definition DeleteCustomer ::
  "stdlib \<Rightarrow> decoders \<Rightarrow> Client \<Rightarrow> DeleteCustomerParams \<Rightarrow> net
     \<Rightarrow> (DeleteCustomerResponse \<times> ApiError option) \<times> net" where
  "DeleteCustomer L D c params n =
     (let queryParams = Some [(''customerId'', dcp_CustomerID params)]
      in returning (handleDeleteRequest L c ''/customer/by-id'' queryParams
           (decode_DeleteCustomerResponse D) zero_DeleteCustomerResponse n))"

definition ToggleCustomerStatus ::
  "stdlib \<Rightarrow> decoders \<Rightarrow> Client \<Rightarrow> ToggleCustomerStatusParams \<Rightarrow> net
     \<Rightarrow> (ToggleCustomerStatusResponse \<times> ApiError option) \<times> net" where
  "ToggleCustomerStatus L D c params n =
     returning (handleRequest L c ''POST'' ''/customer/disable'' Marshal_ToggleCustomerStatusParams
       params (decode_ToggleCustomerStatusResponse D) zero_ToggleCustomerStatusResponse n)"

definition GetCustomerById ::
  "stdlib \<Rightarrow> decoders \<Rightarrow> Client \<Rightarrow> GetCustomerByIdParams \<Rightarrow> net
     \<Rightarrow> (GetCustomerByIdResponse \<times> ApiError option) \<times> net" where
  "GetCustomerById L D c params n =
     (let queryParams = Some [(''customerId'', gcbip_CustomerID params)]
      in returning (handleGetRequest L c ''/customer/by-id'' queryParams
           (decode_GetCustomerByIdResponse D) zero_GetCustomerByIdResponse n))"

section \<open>The catalogue as one function\<close>

text \<open>
  To speak of every operation at once, a call is a value: the operation with its
  argument. \<open>invoke\<close> runs the operation it names and tags the response with its type.
  \<open>zero_response\<close> is the zero value of the operation's response type and
  \<open>decode_response\<close> is its decoder run on that zero value, as the operation runs it.
\<close>

datatype operation =
    Op_CreateKey CreateKeyParams
  | Op_ActivateKey ActivateKeyParams
  | Op_DeactivateKey DeactivateKeyParams
  | Op_GetKey GetKeyParams
  | Op_BlockKey BlockKeyParams
  | Op_UnblockKey UnblockKeyParams
  | Op_CreateCustomer CreateCustomerParams
  | Op_GetAllCustomers
  | Op_GetCustomerWithKeys GetCustomerWithKeysParams
  | Op_UpdateCustomer UpdateCustomerParams
  | Op_DeleteCustomer DeleteCustomerParams
  | Op_ToggleCustomerStatus ToggleCustomerStatusParams
  | Op_GetCustomerById GetCustomerByIdParams

datatype response =
    R_CreateKey CreateKeyResponse
  | R_ActivateKey ActivateKeyResponse
  | R_DeactivateKey DeactivateKeyResponse
  | R_GetKey GetKeyResponse
  | R_BlockKey BlockKeyResponse
  | R_UnblockKey UnblockKeyResponse
  | R_CreateCustomer CreateCustomerResponse
  | R_GetAllCustomers GetAllCustomersResponse
  | R_GetCustomerWithKeys GetCustomerWithKeysResponse
  | R_UpdateCustomer UpdateCustomerResponse
  | R_DeleteCustomer DeleteCustomerResponse
  | R_ToggleCustomerStatus ToggleCustomerStatusResponse
  | R_GetCustomerById GetCustomerByIdResponse

definition tagged :: "('r \<Rightarrow> response) \<Rightarrow> ('r \<times> 'e) \<times> net \<Rightarrow> (response \<times> 'e) \<times> net" where
  "tagged R x = (case x of ((r, e), n') \<Rightarrow> ((R r, e), n'))"

fun invoke :: "stdlib \<Rightarrow> decoders \<Rightarrow> Client \<Rightarrow> operation \<Rightarrow> net \<Rightarrow> (response \<times> ApiError option) \<times> net" where
  "invoke L D c (Op_CreateKey p) n = tagged R_CreateKey (CreateKey L D c p n)"
| "invoke L D c (Op_ActivateKey p) n = tagged R_ActivateKey (ActivateKey L D c p n)"
| "invoke L D c (Op_DeactivateKey p) n = tagged R_DeactivateKey (DeactivateKey L D c p n)"
| "invoke L D c (Op_GetKey p) n = tagged R_GetKey (GetKey L D c p n)"
| "invoke L D c (Op_BlockKey p) n = tagged R_BlockKey (BlockKey L D c p n)"
| "invoke L D c (Op_UnblockKey p) n = tagged R_UnblockKey (UnblockKey L D c p n)"
| "invoke L D c (Op_CreateCustomer p) n = tagged R_CreateCustomer (CreateCustomer L D c p n)"
| "invoke L D c Op_GetAllCustomers n = tagged R_GetAllCustomers (GetAllCustomers L D c n)"
| "invoke L D c (Op_GetCustomerWithKeys p) n = tagged R_GetCustomerWithKeys (GetCustomerWithKeys L D c p n)"
| "invoke L D c (Op_UpdateCustomer p) n = tagged R_UpdateCustomer (UpdateCustomer L D c p n)"
| "invoke L D c (Op_DeleteCustomer p) n = tagged R_DeleteCustomer (DeleteCustomer L D c p n)"
| "invoke L D c (Op_ToggleCustomerStatus p) n = tagged R_ToggleCustomerStatus (ToggleCustomerStatus L D c p n)"
| "invoke L D c (Op_GetCustomerById p) n = tagged R_GetCustomerById (GetCustomerById L D c p n)"

fun zero_response :: "operation \<Rightarrow> response" where
  "zero_response (Op_CreateKey p) = R_CreateKey zero_CreateKeyResponse"
| "zero_response (Op_ActivateKey p) = R_ActivateKey zero_ActivateKeyResponse"
| "zero_response (Op_DeactivateKey p) = R_DeactivateKey zero_DeactivateKeyResponse"
| "zero_response (Op_GetKey p) = R_GetKey zero_GetKeyResponse"
| "zero_response (Op_BlockKey p) = R_BlockKey zero_BlockKeyResponse"
| "zero_response (Op_UnblockKey p) = R_UnblockKey zero_UnblockKeyResponse"
| "zero_response (Op_CreateCustomer p) = R_CreateCustomer zero_CreateCustomerResponse"
| "zero_response Op_GetAllCustomers = R_GetAllCustomers zero_GetAllCustomersResponse"
| "zero_response (Op_GetCustomerWithKeys p) = R_GetCustomerWithKeys zero_GetCustomerWithKeysResponse"
| "zero_response (Op_UpdateCustomer p) = R_UpdateCustomer zero_UpdateCustomerResponse"
| "zero_response (Op_DeleteCustomer p) = R_DeleteCustomer zero_DeleteCustomerResponse"
| "zero_response (Op_ToggleCustomerStatus p) = R_ToggleCustomerStatus zero_ToggleCustomerStatusResponse"
| "zero_response (Op_GetCustomerById p) = R_GetCustomerById zero_GetCustomerByIdResponse"

definition decoded :: "('r \<Rightarrow> response) \<Rightarrow> string option \<times> 'r \<Rightarrow> string option \<times> response" where
  "decoded R x = (case x of (err, r) \<Rightarrow> (err, R r))"

fun decode_response :: "decoders \<Rightarrow> operation \<Rightarrow> json \<Rightarrow> string option \<times> response" where
  "decode_response D (Op_CreateKey p) doc =
     decoded R_CreateKey (decode_CreateKeyResponse D doc zero_CreateKeyResponse)"
| "decode_response D (Op_ActivateKey p) doc =
     decoded R_ActivateKey (decode_ActivateKeyResponse D doc zero_ActivateKeyResponse)"
| "decode_response D (Op_DeactivateKey p) doc =
     decoded R_DeactivateKey (decode_DeactivateKeyResponse D doc zero_DeactivateKeyResponse)"
| "decode_response D (Op_GetKey p) doc =
     decoded R_GetKey (decode_GetKeyResponse D doc zero_GetKeyResponse)"
| "decode_response D (Op_BlockKey p) doc =
     decoded R_BlockKey (decode_BlockKeyResponse D doc zero_BlockKeyResponse)"
| "decode_response D (Op_UnblockKey p) doc =
     decoded R_UnblockKey (decode_UnblockKeyResponse D doc zero_UnblockKeyResponse)"
| "decode_response D (Op_CreateCustomer p) doc =
     decoded R_CreateCustomer (decode_CreateCustomerResponse D doc zero_CreateCustomerResponse)"
| "decode_response D Op_GetAllCustomers doc =
     decoded R_GetAllCustomers (decode_GetAllCustomersResponse D doc zero_GetAllCustomersResponse)"
| "decode_response D (Op_GetCustomerWithKeys p) doc =
     decoded R_GetCustomerWithKeys
       (decode_GetCustomerWithKeysResponse D doc zero_GetCustomerWithKeysResponse)"
| "decode_response D (Op_UpdateCustomer p) doc =
     decoded R_UpdateCustomer (decode_UpdateCustomerResponse D doc zero_UpdateCustomerResponse)"
| "decode_response D (Op_DeleteCustomer p) doc =
     decoded R_DeleteCustomer (decode_DeleteCustomerResponse D doc zero_DeleteCustomerResponse)"
| "decode_response D (Op_ToggleCustomerStatus p) doc =
     decoded R_ToggleCustomerStatus
       (decode_ToggleCustomerStatusResponse D doc zero_ToggleCustomerStatusResponse)"
| "decode_response D (Op_GetCustomerById p) doc =
     decoded R_GetCustomerById (decode_GetCustomerByIdResponse D doc zero_GetCustomerByIdResponse)"

text \<open>The verb and path of each operation, as the table of the specification lists them.\<close>

fun spec_verb :: "operation \<Rightarrow> string" where
  "spec_verb (Op_CreateKey p) = ''POST''"
| "spec_verb (Op_ActivateKey p) = ''POST''"
| "spec_verb (Op_DeactivateKey p) = ''POST''"
| "spec_verb (Op_GetKey p) = ''GET''"
| "spec_verb (Op_BlockKey p) = ''POST''"
| "spec_verb (Op_UnblockKey p) = ''POST''"
| "spec_verb (Op_CreateCustomer p) = ''POST''"
| "spec_verb Op_GetAllCustomers = ''GET''"
| "spec_verb (Op_GetCustomerWithKeys p) = ''GET''"
| "spec_verb (Op_UpdateCustomer p) = ''PUT''"
| "spec_verb (Op_DeleteCustomer p) = ''DELETE''"
| "spec_verb (Op_ToggleCustomerStatus p) = ''POST''"
| "spec_verb (Op_GetCustomerById p) = ''GET''"

fun spec_path :: "operation \<Rightarrow> string" where
  "spec_path (Op_CreateKey p) = ''/key''"
| "spec_path (Op_ActivateKey p) = ''/key/activate''"
| "spec_path (Op_DeactivateKey p) = ''/key/deactivate''"
| "spec_path (Op_GetKey p) = ''/key''"
| "spec_path (Op_BlockKey p) = ''/key/block''"
| "spec_path (Op_UnblockKey p) = ''/key/unblock''"
| "spec_path (Op_CreateCustomer p) = ''/customer''"
| "spec_path Op_GetAllCustomers = ''/customer''"
| "spec_path (Op_GetCustomerWithKeys p) = ''/customer/keys''"
| "spec_path (Op_UpdateCustomer p) = ''/customer/by-id''"
| "spec_path (Op_DeleteCustomer p) = ''/customer/by-id''"
| "spec_path (Op_ToggleCustomerStatus p) = ''/customer/disable''"
| "spec_path (Op_GetCustomerById p) = ''/customer/by-id''"

section \<open>What the three primitives share\<close>

text \<open>
  The three primitives differ in how the request is built and are the same from
  \<^verbatim>\<open>httpClient.Do\<close> on. The definitions below name the shared parts, so that one
  statement covers all of them: the error made from a body under a status of 400 or more
  (\<open>error_of_body\<close>), what follows the answer of the network (\<open>after_Do\<close>), the request an
  operation hands to the network (\<open>request_of\<close>) and what the operation returns for the
  answer it gets (\<open>outcome\<close>). The lemmas that follow show that the primitives and the
  operations, as transcribed above, compute exactly these.
\<close>

definition error_of_body :: "stdlib \<Rightarrow> int \<Rightarrow> string \<Rightarrow> ApiError" where
  "error_of_body L status body =
     (case Unmarshal L (decode_ApiError L) body zero_ApiError of
        (err, apiErr) \<Rightarrow>
          if err = None \<and> Message apiErr \<noteq> '''' then apiErr\<lparr>Status := Some status\<rparr>
          else \<lparr>Message = ''API error: '' @ body, Code = - 1, Status = Some status\<rparr>)"

definition after_Do :: "stdlib \<Rightarrow> 'r decoder \<Rightarrow> 'r \<Rightarrow> string + Response \<Rightarrow> ApiError option \<times> 'r" where
  "after_Do L decode result x =
     (case x of
        Inl err \<Rightarrow> (Some \<lparr>Message = ''request failed: '' @ err, Code = - 1, Status = None\<rparr>, result)
      | Inr resp \<Rightarrow>
          (case ReadAll resp of
             Inl err \<Rightarrow> (Some \<lparr>Message = ''failed to read response: '' @ err, Code = - 1,
                                Status = Some (StatusCode resp)\<rparr>, result)
           | Inr body \<Rightarrow>
               if StatusCode resp \<ge> 400 then (Some (error_of_body L (StatusCode resp) body), result)
               else (case Unmarshal L decode body result of
                       (Some err, result') \<Rightarrow>
                         (Some \<lparr>Message = ''failed to unmarshal response: '' @ err, Code = - 1,
                                 Status = Some (StatusCode resp)\<rparr>, result')
                     | (None, result') \<Rightarrow> (None, result'))))"

definition the_request :: "Client \<Rightarrow> string \<Rightarrow> string \<Rightarrow> (string \<times> string) list option \<Rightarrow> json option \<Rightarrow> Request" where
  "the_request c method endpoint query body =
     \<lparr>Method = method, URL = baseURL c @ endpoint, Query = query,
      Header = [(''Authorization'', ''Bearer '' @ accessToken c), (''Content-Type'', ''application/json'')],
      Body = body\<rparr>"

fun request_of :: "Client \<Rightarrow> operation \<Rightarrow> Request" where
  "request_of c (Op_CreateKey p) =
     the_request c ''POST'' ''/key'' None (Some (projr (Marshal_CreateKeyParams p)))"
| "request_of c (Op_ActivateKey p) =
     the_request c ''POST'' ''/key/activate'' None (Some (projr (Marshal_ActivateKeyParams p)))"
| "request_of c (Op_DeactivateKey p) =
     the_request c ''POST'' ''/key/deactivate'' None (Some (projr (Marshal_DeactivateKeyParams p)))"
| "request_of c (Op_GetKey p) =
     the_request c ''GET'' ''/key''
       (Some [(''productId'', gkp_ProductID p), (''licenseKey'', gkp_LicenseKey p)]) None"
| "request_of c (Op_BlockKey p) =
     the_request c ''POST'' ''/key/block'' None (Some (projr (Marshal_BlockKeyParams p)))"
| "request_of c (Op_UnblockKey p) =
     the_request c ''POST'' ''/key/unblock'' None (Some (projr (Marshal_UnblockKeyParams p)))"
| "request_of c (Op_CreateCustomer p) =
     the_request c ''POST'' ''/customer'' None (Some (projr (Marshal_CreateCustomerParams p)))"
| "request_of c Op_GetAllCustomers = the_request c ''GET'' ''/customer'' None None"
| "request_of c (Op_GetCustomerWithKeys p) =
     the_request c ''GET'' ''/customer/keys'' (Some [(''customerId'', gcwkp_CustomerID p)]) None"
| "request_of c (Op_UpdateCustomer p) =
     the_request c ''PUT'' ''/customer/by-id'' None (Some (projr (Marshal_UpdateCustomerParams p)))"
| "request_of c (Op_DeleteCustomer p) =
     the_request c ''DELETE'' ''/customer/by-id'' (Some [(''customerId'', dcp_CustomerID p)]) None"
| "request_of c (Op_ToggleCustomerStatus p) =
     the_request c ''POST'' ''/customer/disable'' None
       (Some (projr (Marshal_ToggleCustomerStatusParams p)))"
| "request_of c (Op_GetCustomerById p) =
     the_request c ''GET'' ''/customer/by-id'' (Some [(''customerId'', gcbip_CustomerID p)]) None"

definition outcome :: "stdlib \<Rightarrow> decoders \<Rightarrow> operation \<Rightarrow> string + Response \<Rightarrow> response \<times> ApiError option" where
  "outcome L D op x =
     (case x of
        Inl err \<Rightarrow>
          (zero_response op,
           Some \<lparr>Message = ''request failed: '' @ err, Code = - 1, Status = None\<rparr>)
      | Inr resp \<Rightarrow>
          (case ReadAll resp of
             Inl err \<Rightarrow>
               (zero_response op,
                Some \<lparr>Message = ''failed to read response: '' @ err, Code = - 1,
                       Status = Some (StatusCode resp)\<rparr>)
           | Inr body \<Rightarrow>
               if StatusCode resp \<ge> 400
               then (zero_response op, Some (error_of_body L (StatusCode resp) body))
               else (case Parse L body of
                       Inl err \<Rightarrow>
                         (zero_response op,
                          Some \<lparr>Message = ''failed to unmarshal response: '' @ err, Code = - 1,
                                 Status = Some (StatusCode resp)\<rparr>)
                     | Inr doc \<Rightarrow>
                         (case decode_response D op doc of
                            (Some err, r) \<Rightarrow>
                              (r, Some \<lparr>Message = ''failed to unmarshal response: '' @ err,
                                          Code = - 1, Status = Some (StatusCode resp)\<rparr>)
                          | (None, r) \<Rightarrow> (r, None)))))"

text \<open>
  \<^verbatim>\<open>json.Unmarshal(body, &result)\<close> at the response type of an operation, on the zero
  value the operation declares.
\<close>

definition unmarshal_response :: "stdlib \<Rightarrow> decoders \<Rightarrow> operation \<Rightarrow> string \<Rightarrow> string option \<times> response" where
  "unmarshal_response L D op body =
     (case Parse L body of
        Inl err \<Rightarrow> (Some err, zero_response op)
      | Inr doc \<Rightarrow> decode_response D op doc)"

section \<open>One response decoder spelled out\<close>

text \<open>
  \<^verbatim>\<open>type CreateKeyResponse struct { Code int `json:"code"`; Key string `json:"key"` }\<close>,
  decoded as \<^verbatim>\<open>ApiError\<close> is: member by member in the order written, a member that
  names no field skipped, a value that does not fit its field skipped with the first
  such error kept.
\<close>

datatype CreateKeyResponse_field = Field_Code' | Field_Key'

definition CreateKeyResponse_field_of :: "stdlib \<Rightarrow> string \<Rightarrow> CreateKeyResponse_field option" where
  "CreateKeyResponse_field_of L key =
     (if key = ''code'' then Some Field_Code'
      else if key = ''key'' then Some Field_Key'
      else if FoldName L key = FoldName L ''code'' then Some Field_Code'
      else if FoldName L key = FoldName L ''key'' then Some Field_Key'
      else None)"

definition CreateKeyResponse_member ::
  "stdlib \<Rightarrow> string option \<times> CreateKeyResponse \<Rightarrow> string \<times> json
     \<Rightarrow> string option \<times> CreateKeyResponse" where
  "CreateKeyResponse_member L st kv =
     (case st of (saved, r) \<Rightarrow>
      case kv of (key, v) \<Rightarrow>
        (case CreateKeyResponse_field_of L key of
           None \<Rightarrow> (saved, r)
         | Some Field_Code' \<Rightarrow>
             (case store_int L ''code'' v (ckr_Code r) of
                (err, c) \<Rightarrow> (saveError saved err, r\<lparr>ckr_Code := c\<rparr>))
         | Some Field_Key' \<Rightarrow>
             (case store_string L ''key'' v (ckr_Key r) of
                (err, k) \<Rightarrow> (saveError saved err, r\<lparr>ckr_Key := k\<rparr>))))"

definition CreateKeyResponse_decoder :: "stdlib \<Rightarrow> CreateKeyResponse decoder" where
  "CreateKeyResponse_decoder L doc r =
     (case doc of
        JNull \<Rightarrow> (None, r)
      | JObj members \<Rightarrow> foldl (CreateKeyResponse_member L) (None, r) members
      | _ \<Rightarrow> (Some (TypeErrorText L doc ''''), r))"

section \<open>A library, decoders, a client and a server to evaluate with\<close>

text \<open>
  The statements below hold for every library and every network. To evaluate them, a
  library is fixed that answers as Go does on the inputs used: the bodies it reads are
  listed with the documents they spell, every other body is taken as malformed; a URL
  with a space in it is refused by \<^verbatim>\<open>http.NewRequest\<close>; names fold by ASCII case.
\<close>

definition ascii_lower :: "char \<Rightarrow> char" where
  "ascii_lower ch =
     (case map_of (zip ''ABCDEFGHIJKLMNOPQRSTUVWXYZ'' ''abcdefghijklmnopqrstuvwxyz'') ch of
        Some l \<Rightarrow> l
      | None \<Rightarrow> ch)"

fun json_kind :: "json \<Rightarrow> string" where
  "json_kind JNull = ''null''"
| "json_kind (JBool b) = ''bool''"
| "json_kind (JInt n) = ''number''"
| "json_kind (JFloat s) = ''number''"
| "json_kind (JStr s) = ''string''"
| "json_kind (JArr xs) = ''array''"
| "json_kind (JObj ms) = ''object''"

definition sample_Parse :: "string \<Rightarrow> string + json" where
  \<open>sample_Parse body =
     (if body = ''{"message":"Invalid request body","code":400}''
      then Inr (JObj [(''message'', JStr ''Invalid request body''), (''code'', JInt 400)])
      else if body = ''{"message":"not found","status":7}''
      then Inr (JObj [(''message'', JStr ''not found''), (''status'', JInt 7)])
      else if body = ''{"code":7}''
      then Inr (JObj [(''code'', JInt 7)])
      else if body = ''{"code":0,"key":"LICENSE-KEY-12345"}''
      then Inr (JObj [(''code'', JInt 0), (''key'', JStr ''LICENSE-KEY-12345'')])
      else if body = ''{"code":"x","key":"ABC"}''
      then Inr (JObj [(''code'', JStr ''x''), (''key'', JStr ''ABC'')])
      else Inl ''invalid character'')\<close>

definition sample_stdlib :: stdlib where
  "sample_stdlib =
     \<lparr>NewRequest_error = (\<lambda>method url. if CHR '' '' \<in> set url then Some ''invalid URL'' else None),
      Parse = sample_Parse,
      FoldName = map ascii_lower,
      TypeErrorText = (\<lambda>v field. ''json: cannot unmarshal '' @ json_kind v @ '' into field '' @ field)\<rparr>"

text \<open>Of the decoders only the one spelled out is used; the others store nothing.\<close>

definition storing_nothing :: "'r decoder" where
  "storing_nothing doc r = (None, r)"

definition sample_decoders :: decoders where
  "sample_decoders =
     \<lparr>decode_CreateKeyResponse = CreateKeyResponse_decoder sample_stdlib,
      decode_ActivateKeyResponse = storing_nothing,
      decode_DeactivateKeyResponse = storing_nothing,
      decode_GetKeyResponse = storing_nothing,
      decode_BlockKeyResponse = storing_nothing,
      decode_UnblockKeyResponse = storing_nothing,
      decode_CreateCustomerResponse = storing_nothing,
      decode_GetAllCustomersResponse = storing_nothing,
      decode_GetCustomerWithKeysResponse = storing_nothing,
      decode_UpdateCustomerResponse = storing_nothing,
      decode_DeleteCustomerResponse = storing_nothing,
      decode_ToggleCustomerStatusResponse = storing_nothing,
      decode_GetCustomerByIdResponse = storing_nothing\<rparr>"

definition sample_client :: Client where
  "sample_client =
     \<lparr>baseURL = ''http://localhost:8080'', accessToken = ''token'',
      httpClient = \<lparr>Timeout = 30 * Second\<rparr>\<rparr>"

definition sample_params :: CreateKeyParams where
  "sample_params =
     \<lparr>ckp_ProductID = ''p1'', ckp_MaxActivations = Some ''5'', ckp_ExpiryDate = None,
      ckp_CustomerID = Some ''12345'', ckp_NewCustomer = None\<rparr>"

text \<open>A server that gives the same answer to every request, and has seen none yet.\<close>

definition answering :: "string + Response \<Rightarrow> net" where
  "answering x = \<lparr>respond = (\<lambda>history req. x), sent = []\<rparr>"

section \<open>Reading a decimal back\<close>

text \<open>
  The inverse of \<^verbatim>\<open>%d\<close>, to state that \<open>Sprintf_d\<close> writes its argument in decimal: the
  digits are read most significant first, after an optional minus sign.
\<close>

definition digit_value :: "char \<Rightarrow> nat" where
  "digit_value ch =
     (case map_of (zip ''0123456789'' [0, 1, 2, 3, 4, 5, 6, 7, 8, 9]) ch of
        Some d \<Rightarrow> d
      | None \<Rightarrow> 0)"

definition read_digits :: "string \<Rightarrow> nat" where
  "read_digits s = foldl (\<lambda>a ch. 10 * a + digit_value ch) 0 s"

definition read_decimal :: "string \<Rightarrow> int" where
  "read_decimal s =
     (case s of
        [] \<Rightarrow> 0
      | ch # ds \<Rightarrow> if ch = CHR ''-'' then - int (read_digits ds) else int (read_digits s))"

text \<open>
  What a decimal numeral is: one digit or more, each of \<^verbatim>\<open>0\<close> to \<^verbatim>\<open>9\<close>, with no leading zero
  unless the numeral is \<^verbatim>\<open>0\<close> itself, after a minus sign when the number is negative (and
  never \<^verbatim>\<open>-0\<close>).
\<close>

definition decimal_digits :: "string \<Rightarrow> bool" where
  "decimal_digits ds =
     (case ds of
        [] \<Rightarrow> False
      | d # rest \<Rightarrow> list_all (\<lambda>ch. ch \<in> set ''0123456789'') ds \<and> (rest = [] \<or> d \<noteq> CHR ''0''))"

definition decimal_numeral :: "string \<Rightarrow> bool" where
  "decimal_numeral s =
     (case s of
        [] \<Rightarrow> False
      | ch # ds \<Rightarrow> if ch = CHR ''-'' then decimal_digits ds \<and> ds \<noteq> ''0'' else decimal_digits s)"

section \<open>The primitives and the operations in terms of the shared parts\<close>

lemma headers_set:
  "Header_Set ''Content-Type'' v
     (Header_Set ''Authorization'' a \<lparr>Method = m, URL = u, Query = q, Header = [], Body = b\<rparr>)
   = \<lparr>Method = m, URL = u, Query = q,
      Header = [(''Authorization'', a), (''Content-Type'', v)], Body = b\<rparr>"
  by (simp add: Header_Set_def)

lemma after_Do_Inl:
  "after_Do L decode result (Inl err) =
     (Some \<lparr>Message = ''request failed: '' @ err, Code = - 1, Status = None\<rparr>, result)"
  by (simp add: after_Do_def)

lemma after_Do_read_error:
  "ReadAll resp = Inl err \<Longrightarrow> after_Do L decode result (Inr resp) =
     (Some \<lparr>Message = ''failed to read response: '' @ err, Code = - 1,
             Status = Some (StatusCode resp)\<rparr>, result)"
  by (simp add: after_Do_def)

lemma after_Do_error_status:
  "ReadAll resp = Inr body \<Longrightarrow> StatusCode resp \<ge> 400 \<Longrightarrow>
   after_Do L decode result (Inr resp) = (Some (error_of_body L (StatusCode resp) body), result)"
  by (simp add: after_Do_def)

lemma after_Do_success_status:
  "ReadAll resp = Inr body \<Longrightarrow> \<not> StatusCode resp \<ge> 400 \<Longrightarrow>
   after_Do L decode result (Inr resp) =
     (case Unmarshal L decode body result of
        (Some err, result') \<Rightarrow>
          (Some \<lparr>Message = ''failed to unmarshal response: '' @ err, Code = - 1,
                  Status = Some (StatusCode resp)\<rparr>, result')
      | (None, result') \<Rightarrow> (None, result'))"
  by (simp add: after_Do_def)

lemma after_Do_eq:
  "(case Do req n of
        (Inl err, n') \<Rightarrow>
          ((Some \<lparr>Message = ''request failed: '' @ err, Code = - 1, Status = None\<rparr>, result), n')
      | (Inr resp, n') \<Rightarrow>
     (case ReadAll resp of
        Inl err \<Rightarrow>
          ((Some \<lparr>Message = ''failed to read response: '' @ err, Code = - 1,
                   Status = Some (StatusCode resp)\<rparr>, result), n')
      | Inr body \<Rightarrow>
          if StatusCode resp \<ge> 400 then
            (case Unmarshal L (decode_ApiError L) body zero_ApiError of
               (err, apiErr) \<Rightarrow>
                 if err = None \<and> Message apiErr \<noteq> ''''
                 then ((Some (apiErr\<lparr>Status := Some (StatusCode resp)\<rparr>), result), n')
                 else ((Some \<lparr>Message = ''API error: '' @ body, Code = - 1,
                               Status = Some (StatusCode resp)\<rparr>, result), n'))
          else
            (case Unmarshal L decode body result of
               (Some err, result') \<Rightarrow>
                 ((Some \<lparr>Message = ''failed to unmarshal response: '' @ err, Code = - 1,
                          Status = Some (StatusCode resp)\<rparr>, result'), n')
             | (None, result') \<Rightarrow> ((None, result'), n'))))
   = (after_Do L decode result (respond n (sent n) req), n\<lparr>sent := sent n @ [req]\<rparr>)"
proof (cases "respond n (sent n) req")
  case (Inl err)
  then show ?thesis by (simp add: Do_def after_Do_Inl)
next
  case (Inr resp)
  note r = this
  show ?thesis
  proof (cases "ReadAll resp")
    case (Inl err)
    with r show ?thesis by (simp add: Do_def after_Do_read_error)
  next
    case (Inr body)
    note b = this
    show ?thesis
    proof (cases "StatusCode resp \<ge> 400")
      case True
      obtain err apiErr where u: "Unmarshal L (decode_ApiError L) body zero_ApiError = (err, apiErr)"
        by (cases "Unmarshal L (decode_ApiError L) body zero_ApiError")
      from r b True u show ?thesis
        by (simp add: Do_def after_Do_error_status error_of_body_def)
    next
      case False
      obtain err result' where u: "Unmarshal L decode body result = (err, result')"
        by (cases "Unmarshal L decode body result")
      from r b False u show ?thesis
        by (cases err) (simp_all add: Do_def after_Do_success_status)
    qed
  qed
qed

lemma handleRequest_eq:
  "handleRequest L c method endpoint marshal params decode result n =
     (case marshal params of
        Inl err \<Rightarrow> ((Some \<lparr>Message = ''failed to marshal request: '' @ err, Code = - 1, Status = None\<rparr>, result), n)
      | Inr jsonData \<Rightarrow>
          (case NewRequest_error L method (baseURL c @ endpoint) of
             Some err \<Rightarrow> ((Some \<lparr>Message = ''failed to create request: '' @ err, Code = - 1, Status = None\<rparr>, result), n)
           | None \<Rightarrow>
               (after_Do L decode result (respond n (sent n) (the_request c method endpoint None (Some jsonData))),
                n\<lparr>sent := sent n @ [the_request c method endpoint None (Some jsonData)]\<rparr>)))"
  unfolding handleRequest_def Let_def after_Do_eq
  by (simp add: NewRequest_def the_request_def headers_set split: sum.split option.split)

lemma handleGetRequest_eq:
  "handleGetRequest L c endpoint queryParams decode result n =
     (case NewRequest_error L ''GET'' (baseURL c @ endpoint) of
        Some err \<Rightarrow> ((Some \<lparr>Message = ''failed to create request: '' @ err, Code = - 1, Status = None\<rparr>, result), n)
      | None \<Rightarrow>
          (after_Do L decode result (respond n (sent n) (the_request c ''GET'' endpoint queryParams None)),
           n\<lparr>sent := sent n @ [the_request c ''GET'' endpoint queryParams None]\<rparr>))"
  unfolding handleGetRequest_def Let_def after_Do_eq
  by (cases queryParams)
     (simp_all add: NewRequest_def the_request_def add_query_def headers_set split: option.split)

lemma handleDeleteRequest_eq:
  "handleDeleteRequest L c endpoint queryParams decode result n =
     (case NewRequest_error L ''DELETE'' (baseURL c @ endpoint) of
        Some err \<Rightarrow> ((Some \<lparr>Message = ''failed to create request: '' @ err, Code = - 1, Status = None\<rparr>, result), n)
      | None \<Rightarrow>
          (after_Do L decode result (respond n (sent n) (the_request c ''DELETE'' endpoint queryParams None)),
           n\<lparr>sent := sent n @ [the_request c ''DELETE'' endpoint queryParams None]\<rparr>))"
  unfolding handleDeleteRequest_def Let_def after_Do_eq
  by (cases queryParams)
     (simp_all add: NewRequest_def the_request_def add_query_def headers_set split: option.split)


lemma tagged_after_Do:
  assumes "\<And>doc. decode_response D op doc = decoded R (decode doc zero)"
    and "zero_response op = R zero"
  shows "(case after_Do L decode zero x of (err, result) \<Rightarrow> (R result, err)) = outcome L D op x"
proof (cases x)
  case (Inl err)
  then show ?thesis by (simp add: after_Do_def outcome_def assms(2))
next
  case (Inr resp)
  note r = this
  show ?thesis
  proof (cases "ReadAll resp")
    case (Inl err)
    with r show ?thesis by (simp add: after_Do_def outcome_def assms(2))
  next
    case (Inr body)
    note b = this
    show ?thesis
    proof (cases "StatusCode resp \<ge> 400")
      case True
      with r b show ?thesis by (simp add: after_Do_def outcome_def assms(2))
    next
      case False
      show ?thesis
      proof (cases "Parse L body")
        case (Inl err)
        with r b False show ?thesis
          by (simp add: after_Do_def outcome_def assms(2) Unmarshal_def)
      next
        case (Inr doc)
        obtain err r' where u: "decode doc zero = (err, r')" by (cases "decode doc zero")
        from r b False Inr u show ?thesis
          by (cases err) (simp_all add: after_Do_def outcome_def assms(1) Unmarshal_def decoded_def)
      qed
    qed
  qed
qed

lemma lift_outcome:
  assumes "\<And>doc. decode_response D op doc = decoded R (decode doc zero)"
    and "zero_response op = R zero"
  shows "tagged R (returning (case e of Some err \<Rightarrow> ((Some (E err), zero), n)
                               | None \<Rightarrow> (after_Do L decode zero x, n'))) =
         (case e of Some err \<Rightarrow> ((zero_response op, Some (E err)), n)
                  | None \<Rightarrow> (outcome L D op x, n'))"
proof (cases e)
  case (Some err)
  then show ?thesis by (simp add: assms(2) tagged_def returning_def)
next
  case None
  obtain err r where u: "after_Do L decode zero x = (err, r)"
    by (cases "after_Do L decode zero x")
  have "outcome L D op x = (R r, err)"
    using tagged_after_Do [where D = D and op = op and R = R and decode = decode and zero = zero
        and L = L and x = x] assms u
    by simp
  with None u show ?thesis by (simp add: tagged_def returning_def)
qed

lemma invoke_eq:
  "invoke L D c op n =
     (case NewRequest_error L (spec_verb op) (baseURL c @ spec_path op) of
        Some err \<Rightarrow>
          ((zero_response op,
            Some \<lparr>Message = ''failed to create request: '' @ err, Code = - 1, Status = None\<rparr>), n)
      | None \<Rightarrow>
          (outcome L D op (respond n (sent n) (request_of c op)),
           n\<lparr>sent := sent n @ [request_of c op]\<rparr>))"
proof (cases op)
  case (Op_CreateKey p)
  show ?thesis
    unfolding Op_CreateKey invoke.simps CreateKey_def Let_def handleRequest_eq
    by (simp add: Marshal_CreateKeyParams_def lift_outcome [where D = D and op = "Op_CreateKey p" and R = R_CreateKey]
          split: option.split)
next
  case (Op_ActivateKey p)
  show ?thesis
    unfolding Op_ActivateKey invoke.simps ActivateKey_def Let_def handleRequest_eq
    by (simp add: Marshal_ActivateKeyParams_def lift_outcome [where D = D and op = "Op_ActivateKey p" and R = R_ActivateKey]
          split: option.split)
next
  case (Op_DeactivateKey p)
  show ?thesis
    unfolding Op_DeactivateKey invoke.simps DeactivateKey_def Let_def handleRequest_eq
    by (simp add: Marshal_DeactivateKeyParams_def lift_outcome [where D = D and op = "Op_DeactivateKey p" and R = R_DeactivateKey]
          split: option.split)
next
  case (Op_GetKey p)
  show ?thesis
    unfolding Op_GetKey invoke.simps GetKey_def Let_def handleGetRequest_eq
    by (simp add: lift_outcome [where D = D and op = "Op_GetKey p" and R = R_GetKey]
          split: option.split)
next
  case (Op_BlockKey p)
  show ?thesis
    unfolding Op_BlockKey invoke.simps BlockKey_def Let_def handleRequest_eq
    by (simp add: Marshal_BlockKeyParams_def lift_outcome [where D = D and op = "Op_BlockKey p" and R = R_BlockKey]
          split: option.split)
next
  case (Op_UnblockKey p)
  show ?thesis
    unfolding Op_UnblockKey invoke.simps UnblockKey_def Let_def handleRequest_eq
    by (simp add: Marshal_UnblockKeyParams_def lift_outcome [where D = D and op = "Op_UnblockKey p" and R = R_UnblockKey]
          split: option.split)
next
  case (Op_CreateCustomer p)
  show ?thesis
    unfolding Op_CreateCustomer invoke.simps CreateCustomer_def Let_def handleRequest_eq
    by (simp add: Marshal_CreateCustomerParams_def lift_outcome [where D = D and op = "Op_CreateCustomer p" and R = R_CreateCustomer]
          split: option.split)
next
  case Op_GetAllCustomers
  show ?thesis
    unfolding Op_GetAllCustomers invoke.simps GetAllCustomers_def Let_def handleGetRequest_eq
    by (simp add: lift_outcome [where D = D and op = Op_GetAllCustomers and R = R_GetAllCustomers]
          split: option.split)
next
  case (Op_GetCustomerWithKeys p)
  show ?thesis
    unfolding Op_GetCustomerWithKeys invoke.simps GetCustomerWithKeys_def Let_def handleGetRequest_eq
    by (simp add: lift_outcome [where D = D and op = "Op_GetCustomerWithKeys p" and R = R_GetCustomerWithKeys]
          split: option.split)
next
  case (Op_UpdateCustomer p)
  show ?thesis
    unfolding Op_UpdateCustomer invoke.simps UpdateCustomer_def Let_def handleRequest_eq
    by (simp add: Marshal_UpdateCustomerParams_def lift_outcome [where D = D and op = "Op_UpdateCustomer p" and R = R_UpdateCustomer]
          split: option.split)
next
  case (Op_DeleteCustomer p)
  show ?thesis
    unfolding Op_DeleteCustomer invoke.simps DeleteCustomer_def Let_def handleDeleteRequest_eq
    by (simp add: lift_outcome [where D = D and op = "Op_DeleteCustomer p" and R = R_DeleteCustomer]
          split: option.split)
next
  case (Op_ToggleCustomerStatus p)
  show ?thesis
    unfolding Op_ToggleCustomerStatus invoke.simps ToggleCustomerStatus_def Let_def handleRequest_eq
    by (simp add: Marshal_ToggleCustomerStatusParams_def lift_outcome [where D = D and op = "Op_ToggleCustomerStatus p" and R = R_ToggleCustomerStatus]
          split: option.split)
next
  case (Op_GetCustomerById p)
  show ?thesis
    unfolding Op_GetCustomerById invoke.simps GetCustomerById_def Let_def handleGetRequest_eq
    by (simp add: lift_outcome [where D = D and op = "Op_GetCustomerById p" and R = R_GetCustomerById]
          split: option.split)
qed

section \<open>Claims on construction and on the error text\<close>

text \<open>
  C5. Whatever the base URL argument, constructing a client with an empty access token
  fails: the result is the error with exactly the message
  \<^verbatim>\<open>access token is required to initialize the client\<close>, and no client. \<open>New\<close> has no
  access to the network, as in the source, so no request is made.
\<close>

theorem New_empty_token:
  "New '''' b = Inl ''access token is required to initialize the client''
   \<and> (\<forall>c. New '''' b \<noteq> Inr c)"
  by (simp add: New_def)

text \<open>\<open>Sprintf_d\<close> is the decimal rendering: read back, it gives the number.\<close>

lemma digit_cases:
  assumes "d < (10::nat)"
  shows "d = 0 \<or> d = 1 \<or> d = 2 \<or> d = 3 \<or> d = 4 \<or> d = 5 \<or> d = 6 \<or> d = 7 \<or> d = 8 \<or> d = 9"
  using assms by arith

lemma digit_value_digit_char:
  assumes "d < 10"
  shows "digit_value (digit_char d) = d \<and> digit_char d \<noteq> CHR ''-''"
  using digit_cases [OF assms]
  by (elim disjE) (simp_all add: digit_char_def digit_value_def)

lemma read_digits_snoc:
  "read_digits (s @ [ch]) = 10 * read_digits s + digit_value ch"
  by (simp add: read_digits_def)

lemma read_digits_dec_digits:
  "read_digits (dec_digits n) = n"
proof (induction n rule: dec_digits.induct)
  case (1 n)
  show ?case
  proof (cases "n < 10")
    case True
    then show ?thesis
      by (subst dec_digits.simps) (simp add: read_digits_def digit_value_digit_char)
  next
    case False
    with 1 have "read_digits (dec_digits (n div 10)) = n div 10" by simp
    with False show ?thesis
      by (subst dec_digits.simps) (simp add: read_digits_snoc digit_value_digit_char)
  qed
qed

lemma dec_digits_head:
  "\<exists>ch s. dec_digits n = ch # s \<and> ch \<noteq> CHR ''-''"
proof (induction n rule: dec_digits.induct)
  case (1 n)
  show ?case
  proof (cases "n < 10")
    case True
    then show ?thesis
      by (subst dec_digits.simps) (simp add: digit_value_digit_char)
  next
    case False
    with 1 obtain ch s where "dec_digits (n div 10) = ch # s" and "ch \<noteq> CHR ''-''"
      by blast
    with False show ?thesis
      by (subst dec_digits.simps) simp
  qed
qed

lemma read_decimal_Sprintf_d:
  "read_decimal (Sprintf_d n) = n"
proof (cases "n < 0")
  case True
  then show ?thesis
    by (simp add: Sprintf_d_def read_decimal_def read_digits_dec_digits)
next
  case False
  obtain ch s where h: "dec_digits (nat n) = ch # s" and m: "ch \<noteq> CHR ''-''"
    using dec_digits_head by blast
  have "read_digits (ch # s) = nat n"
    using read_digits_dec_digits [of "nat n"] h by simp
  with False h m show ?thesis
    by (simp add: Sprintf_d_def read_decimal_def)
qed

text \<open>
  \<open>Sprintf_d\<close> writes a decimal numeral: digits only, no leading zero, a minus sign exactly
  when the number is negative.
\<close>

lemma digit_char_in:
  assumes "d < 10"
  shows "digit_char d \<in> set ''0123456789'' \<and> (digit_char d = CHR ''0'' \<longleftrightarrow> d = 0)"
  using digit_cases [OF assms]
  by (elim disjE) (simp_all add: digit_char_def)

lemma dec_digits_all:
  "list_all (\<lambda>ch. ch \<in> set ''0123456789'') (dec_digits n)"
proof (induction n rule: dec_digits.induct)
  case (1 n)
  show ?case
  proof (cases "n < 10")
    case True
    from True digit_char_in [OF True] show ?thesis
      by (subst dec_digits.simps) auto
  next
    case False
    with 1 have "list_all (\<lambda>ch. ch \<in> set ''0123456789'') (dec_digits (n div 10))" by simp
    moreover have "digit_char (n mod 10) \<in> set ''0123456789''"
      by (rule digit_char_in [THEN conjunct1]) simp
    ultimately show ?thesis
      using False by (subst dec_digits.simps) auto
  qed
qed

lemma dec_digits_leading:
  "\<exists>d rest. dec_digits n = d # rest \<and> (d = CHR ''0'' \<longrightarrow> n = 0 \<and> rest = [])"
proof (induction n rule: dec_digits.induct)
  case (1 n)
  show ?case
  proof (cases "n < 10")
    case True
    from True digit_char_in [OF True] show ?thesis
      by (subst dec_digits.simps) simp
  next
    case False
    with 1 obtain d rest where h: "dec_digits (n div 10) = d # rest"
      and z: "d = CHR ''0'' \<longrightarrow> n div 10 = 0 \<and> rest = []"
      by blast
    from False have "n div 10 \<noteq> 0" by simp
    with z have "d \<noteq> CHR ''0''" by blast
    with False h show ?thesis
      by (subst dec_digits.simps) simp
  qed
qed

lemma decimal_digits_dec_digits:
  "decimal_digits (dec_digits n)"
proof -
  obtain d rest where h: "dec_digits n = d # rest"
    and z: "d = CHR ''0'' \<longrightarrow> n = 0 \<and> rest = []"
    using dec_digits_leading by blast
  have "list_all (\<lambda>ch. ch \<in> set ''0123456789'') (d # rest)"
    using dec_digits_all [of n] h by simp
  with h z show ?thesis
    unfolding decimal_digits_def by auto
qed

lemma dec_digits_not_zero:
  assumes "0 < n"
  shows "dec_digits n \<noteq> ''0''"
proof
  assume a: "dec_digits n = ''0''"
  obtain d rest where h: "dec_digits n = d # rest"
    and z: "d = CHR ''0'' \<longrightarrow> n = 0 \<and> rest = []"
    using dec_digits_leading by blast
  from a h have "d = CHR ''0''" by simp
  with z assms show False by simp
qed

lemma decimal_numeral_Sprintf_d:
  "decimal_numeral (Sprintf_d n)"
proof (cases "n < 0")
  case True
  then have "dec_digits (nat (- n)) \<noteq> ''0''"
    by (intro dec_digits_not_zero) simp
  with True show ?thesis
    by (simp add: Sprintf_d_def decimal_numeral_def decimal_digits_dec_digits)
next
  case False
  obtain ch s where h: "dec_digits (nat n) = ch # s" and m: "ch \<noteq> CHR ''-''"
    using dec_digits_head by blast
  have "decimal_digits (ch # s)"
    using decimal_digits_dec_digits [of "nat n"] h by simp
  with False h m show ?thesis
    by (simp add: Sprintf_d_def decimal_numeral_def)
qed

text \<open>
  C10. The rendered text of an error is \<^verbatim>\<open>KeyMint API Error (code: C, status: S): M\<close>
  when the HTTP status is present and \<^verbatim>\<open>KeyMint API Error (code: C): M\<close> when it is
  absent, where \<open>M\<close> is the message and \<open>C\<close> and \<open>S\<close> are the code and the status in
  decimal: what stands in their places is a decimal numeral, and read back it gives the
  code and the status.
\<close>

theorem Error_text:
  "Error \<lparr>Message = m, Code = c, Status = Some s\<rparr> =
     ''KeyMint API Error (code: '' @ Sprintf_d c @ '', status: '' @ Sprintf_d s @ ''): '' @ m
   \<and> Error \<lparr>Message = m, Code = c, Status = None\<rparr> =
     ''KeyMint API Error (code: '' @ Sprintf_d c @ ''): '' @ m
   \<and> decimal_numeral (Sprintf_d c) \<and> read_decimal (Sprintf_d c) = c
   \<and> decimal_numeral (Sprintf_d s) \<and> read_decimal (Sprintf_d s) = s"
  by (simp add: Error_def decimal_numeral_Sprintf_d read_decimal_Sprintf_d)

text \<open>
  The texts of three errors, evaluated: a status present, a status absent with a negative
  code, and the code zero.
\<close>

theorem Error_text_witness:
  "Error \<lparr>Message = ''Invalid request body'', Code = 400, Status = Some 400\<rparr> =
     ''KeyMint API Error (code: 400, status: 400): Invalid request body''
   \<and> Error \<lparr>Message = ''request failed: timeout'', Code = - 1, Status = None\<rparr> =
     ''KeyMint API Error (code: -1): request failed: timeout''
   \<and> Error \<lparr>Message = ''internal'', Code = 0, Status = Some 503\<rparr> =
     ''KeyMint API Error (code: 0, status: 503): internal''
   \<and> decimal_numeral ''400'' \<and> read_decimal ''400'' = 400
   \<and> decimal_numeral ''-1'' \<and> read_decimal ''-1'' = - 1"
  using Error_text [of "''Invalid request body''" 400 400]
    Error_text [of "''request failed: timeout''" "- 1" 503]
    Error_text [of "''internal''" 0 503]
  by (simp add: Sprintf_d_def dec_digits.simps digit_char_def)

section \<open>Claims on the classification of responses\<close>

lemma invoke_sent:
  assumes "NewRequest_error L (spec_verb op) (baseURL c @ spec_path op) = None"
  shows "invoke L D c op n =
           (outcome L D op (respond n (sent n) (request_of c op)),
            n\<lparr>sent := sent n @ [request_of c op]\<rparr>)"
  by (simp add: invoke_eq assms)

lemma invoke_error_status:
  assumes "NewRequest_error L (spec_verb op) (baseURL c @ spec_path op) = None"
    and "respond n (sent n) (request_of c op) = Inr resp"
    and "ReadAll resp = Inr body"
    and "StatusCode resp \<ge> 400"
  shows "fst (invoke L D c op n) = (zero_response op, Some (error_of_body L (StatusCode resp) body))"
  using assms by (simp add: invoke_sent outcome_def)

lemma invoke_success_status:
  assumes "NewRequest_error L (spec_verb op) (baseURL c @ spec_path op) = None"
    and "respond n (sent n) (request_of c op) = Inr resp"
    and "ReadAll resp = Inr body"
    and "StatusCode resp < 400"
  shows "fst (invoke L D c op n) =
           (case unmarshal_response L D op body of
              (Some err, r) \<Rightarrow>
                (r, Some \<lparr>Message = ''failed to unmarshal response: '' @ err, Code = - 1,
                           Status = Some (StatusCode resp)\<rparr>)
            | (None, r) \<Rightarrow> (r, None))"
proof (cases "Parse L body")
  case (Inl err)
  with assms show ?thesis
    by (simp add: invoke_sent outcome_def unmarshal_response_def)
next
  case (Inr doc)
  with assms show ?thesis
    by (simp add: invoke_sent outcome_def unmarshal_response_def)
qed

lemma decode_ApiError_message_code:
  "int_fits C \<Longrightarrow>
   decode_ApiError L (JObj [(''message'', JStr M), (''code'', JInt C)]) zero_ApiError =
     (None, \<lparr>Message = M, Code = C, Status = None\<rparr>)"
  by (simp add: decode_ApiError_def ApiError_member_def ApiError_field_of_def store_string_def
        store_int_def saveError_def zero_ApiError_def)

text \<open>
  C1. For every operation: when the server answers with status 400 and a body that reads
  as the JSON object with the members \<open>message: M\<close> and \<open>code: C\<close>, where \<open>M\<close> is not
  empty and \<open>C\<close> is an integer that fits Go's \<^verbatim>\<open>int\<close> (so that the body parses as the
  error record with a message), the error returned has message \<open>M\<close>, code \<open>C\<close> and HTTP
  status 400.
\<close>

theorem api_error_400:
  assumes "NewRequest_error L (spec_verb op) (baseURL c @ spec_path op) = None"
    and "respond n (sent n) (request_of c op) = Inr \<lparr>StatusCode = 400, ReadAll = Inr body\<rparr>"
    and "Parse L body = Inr (JObj [(''message'', JStr M), (''code'', JInt C)])"
    and "M \<noteq> ''''"
    and "int_fits C"
  shows "snd (fst (invoke L D c op n)) = Some \<lparr>Message = M, Code = C, Status = Some 400\<rparr>"
proof -
  have "fst (invoke L D c op n) = (zero_response op, Some (error_of_body L 400 body))"
    using invoke_error_status [OF assms(1,2)] by simp
  moreover have "error_of_body L 400 body = \<lparr>Message = M, Code = C, Status = Some 400\<rparr>"
    using assms(3,4,5) by (simp add: error_of_body_def Unmarshal_def decode_ApiError_message_code)
  ultimately show ?thesis by simp
qed

theorem api_error_400_witness:
  \<open>snd (fst (invoke sample_stdlib sample_decoders sample_client (Op_CreateKey sample_params)
      (answering (Inr \<lparr>StatusCode = 400,
         ReadAll = Inr ''{"message":"Invalid request body","code":400}''\<rparr>))))
   = Some \<lparr>Message = ''Invalid request body'', Code = 400, Status = Some 400\<rparr>\<close>
  by (rule api_error_400)
     (simp_all add: sample_stdlib_def sample_client_def answering_def sample_Parse_def int_fits_def)


text \<open>
  C2. For every operation: when the server answers with a status of 400 or more and the
  body does not parse as the error record, or parses with an empty message, the error
  returned has as message \<^verbatim>\<open>API error: \<close> followed by the raw body, code -1, and the
  HTTP status observed.
\<close>

theorem unparsed_error_body:
  assumes "NewRequest_error L (spec_verb op) (baseURL c @ spec_path op) = None"
    and "respond n (sent n) (request_of c op) = Inr \<lparr>StatusCode = st, ReadAll = Inr body\<rparr>"
    and "st \<ge> 400"
    and "Unmarshal L (decode_ApiError L) body zero_ApiError = (err, a)"
    and "err \<noteq> None \<or> Message a = []"
  shows "snd (fst (invoke L D c op n)) =
           Some \<lparr>Message = ''API error: '' @ body, Code = - 1, Status = Some st\<rparr>"
proof -
  have "fst (invoke L D c op n) = (zero_response op, Some (error_of_body L st body))"
    using invoke_error_status [OF assms(1,2)] assms(3) by simp
  moreover have "error_of_body L st body =
      \<lparr>Message = ''API error: '' @ body, Code = - 1, Status = Some st\<rparr>"
    using assms(4,5) by (auto simp add: error_of_body_def)
  ultimately show ?thesis by simp
qed

theorem unparsed_error_body_witness:
  \<open>snd (fst (invoke sample_stdlib sample_decoders sample_client Op_GetAllCustomers
      (answering (Inr \<lparr>StatusCode = 400, ReadAll = Inr ''Bad Request''\<rparr>))))
     = Some \<lparr>Message = ''API error: Bad Request'', Code = - 1, Status = Some 400\<rparr>
   \<and> snd (fst (invoke sample_stdlib sample_decoders sample_client
        (Op_DeleteCustomer \<lparr>dcp_CustomerID = ''12345''\<rparr>)
        (answering (Inr \<lparr>StatusCode = 500, ReadAll = Inr ''{"code":7}''\<rparr>))))
     = Some \<lparr>Message = ''API error: {"code":7}'', Code = - 1, Status = Some 500\<rparr>\<close>
proof
  have "snd (fst (invoke sample_stdlib sample_decoders sample_client Op_GetAllCustomers
      (answering (Inr \<lparr>StatusCode = 400, ReadAll = Inr ''Bad Request''\<rparr>))))
     = Some \<lparr>Message = ''API error: '' @ ''Bad Request'', Code = - 1, Status = Some 400\<rparr>"
    by (rule unparsed_error_body [where err = "Some ''invalid character''" and a = zero_ApiError])
       (simp_all add: sample_stdlib_def sample_client_def answering_def sample_Parse_def
          Unmarshal_def)
  then show "snd (fst (invoke sample_stdlib sample_decoders sample_client Op_GetAllCustomers
      (answering (Inr \<lparr>StatusCode = 400, ReadAll = Inr ''Bad Request''\<rparr>))))
     = Some \<lparr>Message = ''API error: Bad Request'', Code = - 1, Status = Some 400\<rparr>"
    by simp
next
  have \<open>snd (fst (invoke sample_stdlib sample_decoders sample_client
        (Op_DeleteCustomer \<lparr>dcp_CustomerID = ''12345''\<rparr>)
        (answering (Inr \<lparr>StatusCode = 500, ReadAll = Inr ''{"code":7}''\<rparr>))))
     = Some \<lparr>Message = ''API error: '' @ ''{"code":7}'', Code = - 1, Status = Some 500\<rparr>\<close>
    by (rule unparsed_error_body
          [where err = None and a = "\<lparr>Message = [], Code = 7, Status = None\<rparr>"])
       (simp_all add: sample_stdlib_def sample_client_def answering_def sample_Parse_def
          Unmarshal_def decode_ApiError_def ApiError_member_def ApiError_field_of_def
          store_int_def saveError_def zero_ApiError_def int_fits_def)
  then show \<open>snd (fst (invoke sample_stdlib sample_decoders sample_client
        (Op_DeleteCustomer \<lparr>dcp_CustomerID = ''12345''\<rparr>)
        (answering (Inr \<lparr>StatusCode = 500, ReadAll = Inr ''{"code":7}''\<rparr>))))
     = Some \<lparr>Message = ''API error: {"code":7}'', Code = - 1, Status = Some 500\<rparr>\<close>
    by simp
qed


text \<open>
  C3. For every operation: when the server answers with a status below 400 and the body
  does not decode into the response type of the operation, the call returns an error,
  with code -1 and the HTTP status observed.
\<close>

theorem undecodable_success_body:
  assumes "NewRequest_error L (spec_verb op) (baseURL c @ spec_path op) = None"
    and "respond n (sent n) (request_of c op) = Inr \<lparr>StatusCode = st, ReadAll = Inr body\<rparr>"
    and "st < 400"
    and "fst (unmarshal_response L D op body) = Some err"
  shows "snd (fst (invoke L D c op n)) =
           Some \<lparr>Message = ''failed to unmarshal response: '' @ err, Code = - 1, Status = Some st\<rparr>"
proof -
  obtain r where u: "unmarshal_response L D op body = (Some err, r)"
    using assms(4) by (cases "unmarshal_response L D op body") simp
  show ?thesis
    using invoke_success_status [OF assms(1,2)] assms(3) u by simp
qed

lemma sample_decode_mismatch:
  "CreateKeyResponse_decoder sample_stdlib
     (JObj [(''code'', JStr ''x''), (''key'', JStr ''ABC'')]) zero_CreateKeyResponse =
   (Some ''json: cannot unmarshal string into field code'', \<lparr>ckr_Code = 0, ckr_Key = ''ABC''\<rparr>)"
  by (simp add: CreateKeyResponse_decoder_def CreateKeyResponse_member_def
        CreateKeyResponse_field_of_def store_int_def store_string_def saveError_def
        zero_CreateKeyResponse_def sample_stdlib_def)

lemma sample_parse_malformed:
  "Parse sample_stdlib ''<html>'' = Inl ''invalid character''"
  by (simp add: sample_stdlib_def sample_Parse_def)

theorem undecodable_success_body_witness:
  \<open>snd (fst (invoke sample_stdlib sample_decoders sample_client (Op_CreateKey sample_params)
      (answering (Inr \<lparr>StatusCode = 200, ReadAll = Inr ''<html>''\<rparr>))))
     = Some \<lparr>Message = ''failed to unmarshal response: invalid character'', Code = - 1,
             Status = Some 200\<rparr>
   \<and> snd (fst (invoke sample_stdlib sample_decoders sample_client (Op_CreateKey sample_params)
        (answering (Inr \<lparr>StatusCode = 200, ReadAll = Inr ''{"code":"x","key":"ABC"}''\<rparr>))))
     = Some \<lparr>Message =
               ''failed to unmarshal response: json: cannot unmarshal string into field code'',
             Code = - 1, Status = Some 200\<rparr>\<close>
proof
  have "snd (fst (invoke sample_stdlib sample_decoders sample_client (Op_CreateKey sample_params)
      (answering (Inr \<lparr>StatusCode = 200, ReadAll = Inr ''<html>''\<rparr>))))
     = Some \<lparr>Message = ''failed to unmarshal response: '' @ ''invalid character'', Code = - 1,
             Status = Some 200\<rparr>"
    by (rule undecodable_success_body [where body = "''<html>''"])
       (simp_all add: unmarshal_response_def sample_parse_malformed answering_def,
        simp_all add: sample_stdlib_def sample_client_def)
  then show "snd (fst (invoke sample_stdlib sample_decoders sample_client (Op_CreateKey sample_params)
      (answering (Inr \<lparr>StatusCode = 200, ReadAll = Inr ''<html>''\<rparr>))))
     = Some \<lparr>Message = ''failed to unmarshal response: invalid character'', Code = - 1,
             Status = Some 200\<rparr>"
    by simp
next
  have p: \<open>Parse sample_stdlib ''{"code":"x","key":"ABC"}'' =
             Inr (JObj [(''code'', JStr ''x''), (''key'', JStr ''ABC'')])\<close>
    by (simp add: sample_stdlib_def sample_Parse_def)
  have \<open>snd (fst (invoke sample_stdlib sample_decoders sample_client (Op_CreateKey sample_params)
        (answering (Inr \<lparr>StatusCode = 200, ReadAll = Inr ''{"code":"x","key":"ABC"}''\<rparr>))))
     = Some \<lparr>Message = ''failed to unmarshal response: ''
                 @ ''json: cannot unmarshal string into field code'',
             Code = - 1, Status = Some 200\<rparr>\<close>
    by (rule undecodable_success_body [where body = \<open>''{"code":"x","key":"ABC"}''\<close>])
       (simp_all add: unmarshal_response_def p decoded_def sample_decoders_def
          sample_decode_mismatch answering_def,
        simp_all add: sample_stdlib_def sample_client_def)
  then show \<open>snd (fst (invoke sample_stdlib sample_decoders sample_client (Op_CreateKey sample_params)
        (answering (Inr \<lparr>StatusCode = 200, ReadAll = Inr ''{"code":"x","key":"ABC"}''\<rparr>))))
     = Some \<lparr>Message =
               ''failed to unmarshal response: json: cannot unmarshal string into field code'',
             Code = - 1, Status = Some 200\<rparr>\<close>
    by simp
qed


lemma ApiError_member_keeps_Code:
  assumes "ApiError_field_of L (fst kv) \<noteq> Some Field_Code"
  shows "Code (snd (ApiError_member L st kv)) = Code (snd st)"
proof -
  obtain saved a where st: "st = (saved, a)" by (cases st)
  obtain key v where kv: "kv = (key, v)" by (cases kv)
  show ?thesis
  proof (cases "ApiError_field_of L key")
    case None
    then show ?thesis by (simp add: ApiError_member_def st kv)
  next
    case (Some f)
    with assms kv show ?thesis
      by (cases f) (simp_all add: ApiError_member_def st split: prod.split)
  qed
qed

lemma foldl_ApiError_member_keeps_Code:
  "\<forall>kv\<in>set ms. ApiError_field_of L (fst kv) \<noteq> Some Field_Code \<Longrightarrow>
   Code (snd (foldl (ApiError_member L) st ms)) = Code (snd st)"
  by (induction ms arbitrary: st) (simp_all add: ApiError_member_keeps_Code)

lemma not_the_code_field:
  "key \<noteq> ''code'' \<Longrightarrow> FoldName L key \<noteq> FoldName L ''code'' \<Longrightarrow>
   ApiError_field_of L key \<noteq> Some Field_Code"
  by (simp add: ApiError_field_of_def)

text \<open>
  C9. For every operation: when the server answers with a status of 400 or more and the
  body parses as the error record with a message that is not empty, the error returned
  is that record with its HTTP status set to the status observed, whatever the body said
  under \<^verbatim>\<open>status\<close>; and when the body is an object none of whose keys names the field
  \<^verbatim>\<open>code\<close>, the code returned is 0.
\<close>

theorem observed_status_and_default_code:
  assumes "NewRequest_error L (spec_verb op) (baseURL c @ spec_path op) = None"
    and "respond n (sent n) (request_of c op) = Inr \<lparr>StatusCode = st, ReadAll = Inr body\<rparr>"
    and "st \<ge> 400"
    and "Unmarshal L (decode_ApiError L) body zero_ApiError = (None, a)"
    and "Message a \<noteq> []"
  shows "snd (fst (invoke L D c op n)) =
           Some \<lparr>Message = Message a, Code = Code a, Status = Some st\<rparr>
         \<and> (\<forall>ms. Parse L body = Inr (JObj ms)
                \<and> (\<forall>kv\<in>set ms. fst kv \<noteq> ''code'' \<and> FoldName L (fst kv) \<noteq> FoldName L ''code'')
              \<longrightarrow> Code a = 0)"
proof
  have "fst (invoke L D c op n) = (zero_response op, Some (error_of_body L st body))"
    using invoke_error_status [OF assms(1,2)] assms(3) by simp
  moreover have "error_of_body L st body = \<lparr>Message = Message a, Code = Code a, Status = Some st\<rparr>"
    using assms(4,5) by (simp add: error_of_body_def)
  ultimately show "snd (fst (invoke L D c op n)) =
      Some \<lparr>Message = Message a, Code = Code a, Status = Some st\<rparr>"
    by simp
next
  show "\<forall>ms. Parse L body = Inr (JObj ms)
          \<and> (\<forall>kv\<in>set ms. fst kv \<noteq> ''code'' \<and> FoldName L (fst kv) \<noteq> FoldName L ''code'')
        \<longrightarrow> Code a = 0"
  proof (intro allI impI)
    fix ms
    assume h: "Parse L body = Inr (JObj ms)
      \<and> (\<forall>kv\<in>set ms. fst kv \<noteq> ''code'' \<and> FoldName L (fst kv) \<noteq> FoldName L ''code'')"
    then have "\<forall>kv\<in>set ms. ApiError_field_of L (fst kv) \<noteq> Some Field_Code"
      by (simp add: not_the_code_field)
    then have "Code (snd (foldl (ApiError_member L) (None, zero_ApiError) ms)) = Code zero_ApiError"
      using foldl_ApiError_member_keeps_Code [of ms L "(None, zero_ApiError)"] by simp
    moreover have "foldl (ApiError_member L) (None, zero_ApiError) ms = (None, a)"
      using assms(4) h by (simp add: Unmarshal_def decode_ApiError_def)
    ultimately show "Code a = 0" by (simp add: zero_ApiError_def)
  qed
qed

theorem observed_status_and_default_code_witness:
  \<open>snd (fst (invoke sample_stdlib sample_decoders sample_client
      (Op_GetCustomerById \<lparr>gcbip_CustomerID = ''12345''\<rparr>)
      (answering (Inr \<lparr>StatusCode = 404,
         ReadAll = Inr ''{"message":"not found","status":7}''\<rparr>))))
   = Some \<lparr>Message = ''not found'', Code = 0, Status = Some 404\<rparr>\<close>
proof -
  let ?body = \<open>''{"message":"not found","status":7}''\<close>
  let ?a = "\<lparr>Message = ''not found'', Code = 0, Status = Some 7\<rparr>"
  have p: "Parse sample_stdlib ?body = Inr (JObj [(''message'', JStr ''not found''), (''status'', JInt 7)])"
    by (simp add: sample_stdlib_def sample_Parse_def)
  have u: "Unmarshal sample_stdlib (decode_ApiError sample_stdlib) ?body zero_ApiError = (None, ?a)"
    by (simp add: Unmarshal_def p decode_ApiError_def ApiError_member_def ApiError_field_of_def
          store_string_def store_int_ptr_def store_int_def saveError_def zero_ApiError_def
          int_fits_def)
  have "snd (fst (invoke sample_stdlib sample_decoders sample_client
      (Op_GetCustomerById \<lparr>gcbip_CustomerID = ''12345''\<rparr>)
      (answering (Inr \<lparr>StatusCode = 404, ReadAll = Inr ?body\<rparr>))))
    = Some \<lparr>Message = Message ?a, Code = Code ?a, Status = Some 404\<rparr>"
    using observed_status_and_default_code [where L = sample_stdlib and D = sample_decoders
        and c = sample_client and op = "Op_GetCustomerById \<lparr>gcbip_CustomerID = ''12345''\<rparr>"
        and n = "answering (Inr \<lparr>StatusCode = 404, ReadAll = Inr ?body\<rparr>)"
        and st = 404 and body = ?body and a = ?a, OF _ _ _ u]
    by (simp add: sample_stdlib_def sample_client_def answering_def)
  then show ?thesis by simp
qed

section \<open>Claims on failures before and after the response arrives\<close>

text \<open>
  C8. A failure before any response is received gives an error with code -1 and no HTTP
  status: when the parameters cannot be serialized (in the primitive that sends a body),
  and, for every operation, when the request cannot be constructed or the network call
  fails. A failure to read the body of a response that was received gives an error with
  code -1 and the status of that response.
\<close>

theorem failures_before_and_after_response:
  "(marshal params = Inl err \<longrightarrow>
      fst (fst (handleRequest L c method endpoint marshal params decode result n)) =
        Some \<lparr>Message = ''failed to marshal request: '' @ err, Code = - 1, Status = None\<rparr>)
   \<and> (NewRequest_error L (spec_verb op) (baseURL c @ spec_path op) = Some err \<longrightarrow>
        snd (fst (invoke L D c op n)) =
          Some \<lparr>Message = ''failed to create request: '' @ err, Code = - 1, Status = None\<rparr>)
   \<and> (NewRequest_error L (spec_verb op) (baseURL c @ spec_path op) = None
        \<and> respond n (sent n) (request_of c op) = Inl err \<longrightarrow>
        snd (fst (invoke L D c op n)) =
          Some \<lparr>Message = ''request failed: '' @ err, Code = - 1, Status = None\<rparr>)
   \<and> (NewRequest_error L (spec_verb op) (baseURL c @ spec_path op) = None
        \<and> respond n (sent n) (request_of c op) = Inr resp \<and> ReadAll resp = Inl err \<longrightarrow>
        snd (fst (invoke L D c op n)) =
          Some \<lparr>Message = ''failed to read response: '' @ err, Code = - 1,
                 Status = Some (StatusCode resp)\<rparr>)"
proof (intro conjI impI)
  assume "marshal params = Inl err"
  then show "fst (fst (handleRequest L c method endpoint marshal params decode result n)) =
      Some \<lparr>Message = ''failed to marshal request: '' @ err, Code = - 1, Status = None\<rparr>"
    by (simp add: handleRequest_eq)
next
  assume "NewRequest_error L (spec_verb op) (baseURL c @ spec_path op) = Some err"
  then show "snd (fst (invoke L D c op n)) =
      Some \<lparr>Message = ''failed to create request: '' @ err, Code = - 1, Status = None\<rparr>"
    by (simp add: invoke_eq)
next
  assume "NewRequest_error L (spec_verb op) (baseURL c @ spec_path op) = None
    \<and> respond n (sent n) (request_of c op) = Inl err"
  then show "snd (fst (invoke L D c op n)) =
      Some \<lparr>Message = ''request failed: '' @ err, Code = - 1, Status = None\<rparr>"
    by (simp add: invoke_sent outcome_def)
next
  assume "NewRequest_error L (spec_verb op) (baseURL c @ spec_path op) = None
    \<and> respond n (sent n) (request_of c op) = Inr resp \<and> ReadAll resp = Inl err"
  then show "snd (fst (invoke L D c op n)) =
      Some \<lparr>Message = ''failed to read response: '' @ err, Code = - 1,
             Status = Some (StatusCode resp)\<rparr>"
    by (simp add: invoke_sent outcome_def)
qed


theorem failures_before_and_after_response_witness:
  "fst (fst (handleRequest sample_stdlib sample_client ''POST'' ''/key''
      (\<lambda>p :: unit. Inl ''json: unsupported type: chan int'') ()
      (storing_nothing :: unit decoder) () (answering (Inl ''unreachable'')))) =
     Some \<lparr>Message = ''failed to marshal request: json: unsupported type: chan int'',
            Code = - 1, Status = None\<rparr>
   \<and> snd (fst (invoke sample_stdlib sample_decoders (sample_client\<lparr>baseURL := ''http://no host''\<rparr>)
        Op_GetAllCustomers (answering (Inl ''unreachable'')))) =
     Some \<lparr>Message = ''failed to create request: invalid URL'', Code = - 1, Status = None\<rparr>
   \<and> snd (fst (invoke sample_stdlib sample_decoders sample_client Op_GetAllCustomers
        (answering (Inl ''dial tcp: connection refused'')))) =
     Some \<lparr>Message = ''request failed: dial tcp: connection refused'', Code = - 1, Status = None\<rparr>
   \<and> snd (fst (invoke sample_stdlib sample_decoders sample_client Op_GetAllCustomers
        (answering (Inr \<lparr>StatusCode = 200, ReadAll = Inl ''unexpected EOF''\<rparr>)))) =
     Some \<lparr>Message = ''failed to read response: unexpected EOF'', Code = - 1, Status = Some 200\<rparr>"
proof (intro conjI)
  have "fst (fst (handleRequest sample_stdlib sample_client ''POST'' ''/key''
      (\<lambda>p :: unit. Inl ''json: unsupported type: chan int'') ()
      (storing_nothing :: unit decoder) () (answering (Inl ''unreachable'')))) =
     Some \<lparr>Message = ''failed to marshal request: '' @ ''json: unsupported type: chan int'',
            Code = - 1, Status = None\<rparr>"
    by (rule failures_before_and_after_response [THEN conjunct1, THEN mp]) simp
  then show "fst (fst (handleRequest sample_stdlib sample_client ''POST'' ''/key''
      (\<lambda>p :: unit. Inl ''json: unsupported type: chan int'') ()
      (storing_nothing :: unit decoder) () (answering (Inl ''unreachable'')))) =
     Some \<lparr>Message = ''failed to marshal request: json: unsupported type: chan int'',
            Code = - 1, Status = None\<rparr>"
    by simp
next
  have "snd (fst (invoke sample_stdlib sample_decoders (sample_client\<lparr>baseURL := ''http://no host''\<rparr>)
        Op_GetAllCustomers (answering (Inl ''unreachable'')))) =
     Some \<lparr>Message = ''failed to create request: '' @ ''invalid URL'', Code = - 1, Status = None\<rparr>"
    by (rule failures_before_and_after_response [THEN conjunct2, THEN conjunct1, THEN mp])
       (simp add: sample_stdlib_def sample_client_def)
  then show "snd (fst (invoke sample_stdlib sample_decoders (sample_client\<lparr>baseURL := ''http://no host''\<rparr>)
        Op_GetAllCustomers (answering (Inl ''unreachable'')))) =
     Some \<lparr>Message = ''failed to create request: invalid URL'', Code = - 1, Status = None\<rparr>"
    by simp
next
  have "snd (fst (invoke sample_stdlib sample_decoders sample_client Op_GetAllCustomers
        (answering (Inl ''dial tcp: connection refused'')))) =
     Some \<lparr>Message = ''request failed: '' @ ''dial tcp: connection refused'', Code = - 1,
            Status = None\<rparr>"
    by (rule failures_before_and_after_response
          [THEN conjunct2, THEN conjunct2, THEN conjunct1, THEN mp])
       (simp add: sample_stdlib_def sample_client_def answering_def)
  then show "snd (fst (invoke sample_stdlib sample_decoders sample_client Op_GetAllCustomers
        (answering (Inl ''dial tcp: connection refused'')))) =
     Some \<lparr>Message = ''request failed: dial tcp: connection refused'', Code = - 1, Status = None\<rparr>"
    by simp
next
  have "snd (fst (invoke sample_stdlib sample_decoders sample_client Op_GetAllCustomers
        (answering (Inr \<lparr>StatusCode = 200, ReadAll = Inl ''unexpected EOF''\<rparr>)))) =
     Some \<lparr>Message = ''failed to read response: '' @ ''unexpected EOF'', Code = - 1,
            Status = Some (StatusCode \<lparr>StatusCode = 200, ReadAll = Inl ''unexpected EOF''\<rparr>)\<rparr>"
    by (rule failures_before_and_after_response
          [THEN conjunct2, THEN conjunct2, THEN conjunct2, THEN mp])
       (simp add: sample_stdlib_def sample_client_def answering_def)
  then show "snd (fst (invoke sample_stdlib sample_decoders sample_client Op_GetAllCustomers
        (answering (Inr \<lparr>StatusCode = 200, ReadAll = Inl ''unexpected EOF''\<rparr>)))) =
     Some \<lparr>Message = ''failed to read response: unexpected EOF'', Code = - 1, Status = Some 200\<rparr>"
    by simp
qed

section \<open>Claims on what a call returns next to its error\<close>

lemma fst_tagged:
  "fst (tagged R x) = (R (fst (fst x)), snd (fst x))"
  by (simp add: tagged_def split: prod.split)

text \<open>
  C4, as stated, fails. \<open>CreateKey\<close> is called against a server that answers 200 with the
  body \<^verbatim>\<open>{"code":"x","key":"ABC"}\<close>. The string under \<^verbatim>\<open>code\<close> does not fit the
  \<^verbatim>\<open>int\<close> field, so the call fails, with an error of code -1 and status 200; but the
  decoder has gone on and stored the key, and the response returned next to the error is
  not the zero value.
\<close>

theorem failed_call_with_populated_response:
  \<open>fst (fst (CreateKey sample_stdlib sample_decoders sample_client sample_params
      (answering (Inr \<lparr>StatusCode = 200, ReadAll = Inr ''{"code":"x","key":"ABC"}''\<rparr>))))
     = \<lparr>ckr_Code = 0, ckr_Key = ''ABC''\<rparr>
   \<and> map_option Code
        (snd (fst (CreateKey sample_stdlib sample_decoders sample_client sample_params
          (answering (Inr \<lparr>StatusCode = 200, ReadAll = Inr ''{"code":"x","key":"ABC"}''\<rparr>)))))
     = Some (- 1)
   \<and> map_option Status
        (snd (fst (CreateKey sample_stdlib sample_decoders sample_client sample_params
          (answering (Inr \<lparr>StatusCode = 200, ReadAll = Inr ''{"code":"x","key":"ABC"}''\<rparr>)))))
     = Some (Some 200)
   \<and> \<lparr>ckr_Code = 0, ckr_Key = ''ABC''\<rparr> \<noteq> zero_CreateKeyResponse\<close>
proof (intro conjI)
  let ?n = \<open>answering (Inr \<lparr>StatusCode = 200, ReadAll = Inr ''{"code":"x","key":"ABC"}''\<rparr>)\<close>
  have p: \<open>Parse sample_stdlib ''{"code":"x","key":"ABC"}'' =
             Inr (JObj [(''code'', JStr ''x''), (''key'', JStr ''ABC'')])\<close>
    by (simp add: sample_stdlib_def sample_Parse_def)
  have u: \<open>unmarshal_response sample_stdlib sample_decoders (Op_CreateKey sample_params)
             ''{"code":"x","key":"ABC"}'' =
           (Some ''json: cannot unmarshal string into field code'',
            R_CreateKey \<lparr>ckr_Code = 0, ckr_Key = ''ABC''\<rparr>)\<close>
    by (simp add: unmarshal_response_def p decoded_def sample_decoders_def sample_decode_mismatch)
  have "fst (invoke sample_stdlib sample_decoders sample_client (Op_CreateKey sample_params) ?n)
      = (R_CreateKey \<lparr>ckr_Code = 0, ckr_Key = ''ABC''\<rparr>,
         Some \<lparr>Message =
                  ''failed to unmarshal response: json: cannot unmarshal string into field code'',
                Code = - 1, Status = Some 200\<rparr>)"
    by (subst invoke_success_status
          [where resp = \<open>\<lparr>StatusCode = 200, ReadAll = Inr ''{"code":"x","key":"ABC"}''\<rparr>\<close>
             and body = \<open>''{"code":"x","key":"ABC"}''\<close>])
       (simp_all add: u answering_def, simp_all add: sample_stdlib_def sample_client_def)
  then have r: "fst (CreateKey sample_stdlib sample_decoders sample_client sample_params ?n)
     = (\<lparr>ckr_Code = 0, ckr_Key = ''ABC''\<rparr>,
        Some \<lparr>Message =
                 ''failed to unmarshal response: json: cannot unmarshal string into field code'',
               Code = - 1, Status = Some 200\<rparr>)"
    by (simp add: fst_tagged prod_eq_iff)
  from r show "fst (fst (CreateKey sample_stdlib sample_decoders sample_client sample_params ?n))
     = \<lparr>ckr_Code = 0, ckr_Key = ''ABC''\<rparr>"
    by simp
  from r show "map_option Code
      (snd (fst (CreateKey sample_stdlib sample_decoders sample_client sample_params ?n)))
     = Some (- 1)"
    by simp
  from r show "map_option Status
      (snd (fst (CreateKey sample_stdlib sample_decoders sample_client sample_params ?n)))
     = Some (Some 200)"
    by simp
  show "\<lparr>ckr_Code = 0, ckr_Key = ''ABC''\<rparr> \<noteq> zero_CreateKeyResponse"
    by (simp add: zero_CreateKeyResponse_def)
qed


lemma outcome_cases:
  "outcome L D op x = (r, e) \<Longrightarrow>
     (e \<noteq> None \<and> r = zero_response op)
   \<or> (\<exists>resp body doc. x = Inr resp \<and> ReadAll resp = Inr body \<and> StatusCode resp < 400
         \<and> Parse L body = Inr doc
         \<and> ((\<exists>err. e \<noteq> None \<and> decode_response D op doc = (Some err, r))
            \<or> (e = None \<and> decode_response D op doc = (None, r))))"
proof (cases x)
  case (Inl err)
  assume "outcome L D op x = (r, e)"
  with Inl show ?thesis by (auto simp add: outcome_def)
next
  case (Inr resp)
  note x = this
  assume o: "outcome L D op x = (r, e)"
  show ?thesis
  proof (cases "ReadAll resp")
    case (Inl err)
    with x o show ?thesis by (auto simp add: outcome_def)
  next
    case (Inr body)
    note b = this
    show ?thesis
    proof (cases "StatusCode resp \<ge> 400")
      case True
      with x b o show ?thesis by (auto simp add: outcome_def)
    next
      case False
      note st = this
      show ?thesis
      proof (cases "Parse L body")
        case (Inl err)
        with x b st o show ?thesis by (auto simp add: outcome_def)
      next
        case (Inr doc)
        obtain err r' where d: "decode_response D op doc = (err, r')"
          by (cases "decode_response D op doc")
        from x b st o Inr d show ?thesis
          by (cases err) (auto simp add: outcome_def)
      qed
    qed
  qed
qed

text \<open>
  C4, amended. For every operation, what a call returns next to its error is settled by
  how far the call got.
  \<^item> On a response with a status below 400 whose body decodes, the call returns the
    decoded value and no error; and a call that returns no error is of that kind.
  \<^item> On a response with a status below 400 whose body is well-formed JSON that does not
    fit the response type, the call returns the error \<^verbatim>\<open>failed to unmarshal response\<close> and,
    next to it, exactly the value the decoder has left: it started from the zero value,
    and holds whatever was stored before and after the member that did not fit.
  \<^item> In every other failure the call returns an error and, next to it, the zero value of
    the response type: a body under a status below 400 that is not well-formed JSON, a
    status of 400 or above, a body that cannot be read, a request that gets no response,
    a request that cannot be built.
\<close>

theorem response_next_to_error:
  "(NewRequest_error L (spec_verb op) (baseURL c @ spec_path op) = None
       \<and> respond n (sent n) (request_of c op) = Inr resp \<and> ReadAll resp = Inr body
       \<and> StatusCode resp < 400 \<and> unmarshal_response L D op body = (None, r)
       \<longrightarrow> fst (invoke L D c op n) = (r, None))
   \<and> (snd (fst (invoke L D c op n)) = None \<longrightarrow>
        (\<exists>resp body.
           NewRequest_error L (spec_verb op) (baseURL c @ spec_path op) = None
           \<and> respond n (sent n) (request_of c op) = Inr resp \<and> ReadAll resp = Inr body
           \<and> StatusCode resp < 400
           \<and> unmarshal_response L D op body = (None, fst (fst (invoke L D c op n)))))
   \<and> (NewRequest_error L (spec_verb op) (baseURL c @ spec_path op) = None
       \<and> respond n (sent n) (request_of c op) = Inr resp \<and> ReadAll resp = Inr body
       \<and> StatusCode resp < 400 \<and> Parse L body = Inr doc
       \<and> decode_response D op doc = (Some err, r)
       \<longrightarrow> fst (invoke L D c op n) =
             (r, Some \<lparr>Message = ''failed to unmarshal response: '' @ err, Code = - 1,
                        Status = Some (StatusCode resp)\<rparr>))
   \<and> (NewRequest_error L (spec_verb op) (baseURL c @ spec_path op) = None
       \<and> respond n (sent n) (request_of c op) = Inr resp \<and> ReadAll resp = Inr body
       \<and> StatusCode resp < 400 \<and> Parse L body = Inl err
       \<longrightarrow> fst (invoke L D c op n) =
             (zero_response op,
              Some \<lparr>Message = ''failed to unmarshal response: '' @ err, Code = - 1,
                     Status = Some (StatusCode resp)\<rparr>))
   \<and> (NewRequest_error L (spec_verb op) (baseURL c @ spec_path op) = None
       \<and> respond n (sent n) (request_of c op) = Inr resp \<and> ReadAll resp = Inr body
       \<and> StatusCode resp \<ge> 400
       \<longrightarrow> fst (fst (invoke L D c op n)) = zero_response op
           \<and> snd (fst (invoke L D c op n)) \<noteq> None)
   \<and> (NewRequest_error L (spec_verb op) (baseURL c @ spec_path op) = None
       \<and> respond n (sent n) (request_of c op) = Inr resp \<and> ReadAll resp = Inl err
       \<longrightarrow> fst (fst (invoke L D c op n)) = zero_response op
           \<and> snd (fst (invoke L D c op n)) \<noteq> None)
   \<and> (NewRequest_error L (spec_verb op) (baseURL c @ spec_path op) = None
       \<and> respond n (sent n) (request_of c op) = Inl err
       \<longrightarrow> fst (fst (invoke L D c op n)) = zero_response op
           \<and> snd (fst (invoke L D c op n)) \<noteq> None)
   \<and> (NewRequest_error L (spec_verb op) (baseURL c @ spec_path op) \<noteq> None
       \<longrightarrow> fst (fst (invoke L D c op n)) = zero_response op
           \<and> snd (fst (invoke L D c op n)) \<noteq> None)"
proof (intro conjI impI)
  assume "NewRequest_error L (spec_verb op) (baseURL c @ spec_path op) = None
       \<and> respond n (sent n) (request_of c op) = Inr resp \<and> ReadAll resp = Inr body
       \<and> StatusCode resp < 400 \<and> unmarshal_response L D op body = (None, r)"
  then show "fst (invoke L D c op n) = (r, None)"
    using invoke_success_status [of L op c n resp body D] by simp
next
  assume e: "snd (fst (invoke L D c op n)) = None"
  show "\<exists>resp body.
           NewRequest_error L (spec_verb op) (baseURL c @ spec_path op) = None
           \<and> respond n (sent n) (request_of c op) = Inr resp \<and> ReadAll resp = Inr body
           \<and> StatusCode resp < 400
           \<and> unmarshal_response L D op body = (None, fst (fst (invoke L D c op n)))"
  proof (cases "NewRequest_error L (spec_verb op) (baseURL c @ spec_path op)")
    case (Some err)
    with e show ?thesis by (simp add: invoke_eq)
  next
    case None
    then have "outcome L D op (respond n (sent n) (request_of c op)) =
        (fst (fst (invoke L D c op n)), None)"
      using e by (simp add: invoke_sent prod_eq_iff)
    from outcome_cases [OF this] None show ?thesis
      by (auto simp add: unmarshal_response_def)
  qed
next
  assume "NewRequest_error L (spec_verb op) (baseURL c @ spec_path op) = None
       \<and> respond n (sent n) (request_of c op) = Inr resp \<and> ReadAll resp = Inr body
       \<and> StatusCode resp < 400 \<and> Parse L body = Inr doc
       \<and> decode_response D op doc = (Some err, r)"
  then show "fst (invoke L D c op n) =
             (r, Some \<lparr>Message = ''failed to unmarshal response: '' @ err, Code = - 1,
                        Status = Some (StatusCode resp)\<rparr>)"
    by (simp add: invoke_sent outcome_def)
next
  assume "NewRequest_error L (spec_verb op) (baseURL c @ spec_path op) = None
       \<and> respond n (sent n) (request_of c op) = Inr resp \<and> ReadAll resp = Inr body
       \<and> StatusCode resp < 400 \<and> Parse L body = Inl err"
  then show "fst (invoke L D c op n) =
             (zero_response op,
              Some \<lparr>Message = ''failed to unmarshal response: '' @ err, Code = - 1,
                     Status = Some (StatusCode resp)\<rparr>)"
    by (simp add: invoke_sent outcome_def)
next
  assume a: "NewRequest_error L (spec_verb op) (baseURL c @ spec_path op) = None
       \<and> respond n (sent n) (request_of c op) = Inr resp \<and> ReadAll resp = Inr body
       \<and> StatusCode resp \<ge> 400"
  then show "fst (fst (invoke L D c op n)) = zero_response op"
    by (simp add: invoke_sent outcome_def)
  from a show "snd (fst (invoke L D c op n)) \<noteq> None"
    by (simp add: invoke_sent outcome_def)
next
  assume a: "NewRequest_error L (spec_verb op) (baseURL c @ spec_path op) = None
       \<and> respond n (sent n) (request_of c op) = Inr resp \<and> ReadAll resp = Inl err"
  then show "fst (fst (invoke L D c op n)) = zero_response op"
    by (simp add: invoke_sent outcome_def)
  from a show "snd (fst (invoke L D c op n)) \<noteq> None"
    by (simp add: invoke_sent outcome_def)
next
  assume a: "NewRequest_error L (spec_verb op) (baseURL c @ spec_path op) = None
       \<and> respond n (sent n) (request_of c op) = Inl err"
  then show "fst (fst (invoke L D c op n)) = zero_response op"
    by (simp add: invoke_sent outcome_def)
  from a show "snd (fst (invoke L D c op n)) \<noteq> None"
    by (simp add: invoke_sent outcome_def)
next
  assume a: "NewRequest_error L (spec_verb op) (baseURL c @ spec_path op) \<noteq> None"
  then obtain err where s: "NewRequest_error L (spec_verb op) (baseURL c @ spec_path op) = Some err"
    by blast
  then show "fst (fst (invoke L D c op n)) = zero_response op"
    by (simp add: invoke_eq)
  from s show "snd (fst (invoke L D c op n)) \<noteq> None"
    by (simp add: invoke_eq)
qed

lemma sample_decode_key:
  "CreateKeyResponse_decoder sample_stdlib
     (JObj [(''code'', JInt 0), (''key'', JStr ''LICENSE-KEY-12345'')]) zero_CreateKeyResponse =
   (None, \<lparr>ckr_Code = 0, ckr_Key = ''LICENSE-KEY-12345''\<rparr>)"
  by (simp add: CreateKeyResponse_decoder_def CreateKeyResponse_member_def
        CreateKeyResponse_field_of_def store_int_def store_string_def saveError_def
        zero_CreateKeyResponse_def int_fits_def)

text \<open>
  \<open>CreateKey\<close>, evaluated in each of these cases: a body that decodes; the body
  \<^verbatim>\<open>{"code":"x","key":"ABC"}\<close>, whose key is returned next to the error; a body that is not
  JSON; a status of 400; a body that cannot be read; no response; a base URL that
  \<^verbatim>\<open>http.NewRequest\<close> refuses.
\<close>

theorem response_next_to_error_witness:
  \<open>fst (invoke sample_stdlib sample_decoders sample_client (Op_CreateKey sample_params)
      (answering (Inr \<lparr>StatusCode = 200,
         ReadAll = Inr ''{"code":0,"key":"LICENSE-KEY-12345"}''\<rparr>)))
     = (R_CreateKey \<lparr>ckr_Code = 0, ckr_Key = ''LICENSE-KEY-12345''\<rparr>, None)
   \<and> unmarshal_response sample_stdlib sample_decoders (Op_CreateKey sample_params)
        ''{"code":0,"key":"LICENSE-KEY-12345"}''
     = (None, fst (fst (invoke sample_stdlib sample_decoders sample_client
          (Op_CreateKey sample_params)
          (answering (Inr \<lparr>StatusCode = 200,
             ReadAll = Inr ''{"code":0,"key":"LICENSE-KEY-12345"}''\<rparr>)))))
   \<and> fst (fst (invoke sample_stdlib sample_decoders sample_client (Op_CreateKey sample_params)
        (answering (Inr \<lparr>StatusCode = 200, ReadAll = Inr ''{"code":"x","key":"ABC"}''\<rparr>))))
     = R_CreateKey \<lparr>ckr_Code = 0, ckr_Key = ''ABC''\<rparr>
   \<and> map_option Status
        (snd (fst (invoke sample_stdlib sample_decoders sample_client (Op_CreateKey sample_params)
          (answering (Inr \<lparr>StatusCode = 200, ReadAll = Inr ''{"code":"x","key":"ABC"}''\<rparr>)))))
     = Some (Some 200)
   \<and> fst (fst (invoke sample_stdlib sample_decoders sample_client (Op_CreateKey sample_params)
        (answering (Inr \<lparr>StatusCode = 200, ReadAll = Inr ''<html>''\<rparr>))))
     = R_CreateKey \<lparr>ckr_Code = 0, ckr_Key = ''''\<rparr>
   \<and> fst (fst (invoke sample_stdlib sample_decoders sample_client (Op_CreateKey sample_params)
        (answering (Inr \<lparr>StatusCode = 400, ReadAll = Inr ''{"code":"x","key":"ABC"}''\<rparr>))))
     = R_CreateKey \<lparr>ckr_Code = 0, ckr_Key = ''''\<rparr>
   \<and> fst (fst (invoke sample_stdlib sample_decoders sample_client (Op_CreateKey sample_params)
        (answering (Inr \<lparr>StatusCode = 200, ReadAll = Inl ''unexpected EOF''\<rparr>))))
     = R_CreateKey \<lparr>ckr_Code = 0, ckr_Key = ''''\<rparr>
   \<and> fst (fst (invoke sample_stdlib sample_decoders sample_client (Op_CreateKey sample_params)
        (answering (Inl ''dial tcp: connection refused''))))
     = R_CreateKey \<lparr>ckr_Code = 0, ckr_Key = ''''\<rparr>
   \<and> fst (fst (invoke sample_stdlib sample_decoders (sample_client\<lparr>baseURL := ''http://no host''\<rparr>)
        (Op_CreateKey sample_params)
        (answering (Inr \<lparr>StatusCode = 200, ReadAll = Inr ''{"code":"x","key":"ABC"}''\<rparr>))))
     = R_CreateKey \<lparr>ckr_Code = 0, ckr_Key = ''''\<rparr>\<close>
proof (intro conjI)
  let ?op = "Op_CreateKey sample_params"
  let ?good = \<open>''{"code":0,"key":"LICENSE-KEY-12345"}''\<close>
  let ?bad = \<open>''{"code":"x","key":"ABC"}''\<close>
  let ?doc = "JObj [(''code'', JStr ''x''), (''key'', JStr ''ABC'')]"
  let ?left = "R_CreateKey \<lparr>ckr_Code = 0, ckr_Key = ''ABC''\<rparr>"
  let ?zero = "R_CreateKey \<lparr>ckr_Code = 0, ckr_Key = ''''\<rparr>"
  let ?text = "''json: cannot unmarshal string into field code''"
  have ok: "NewRequest_error sample_stdlib ''POST'' (baseURL sample_client @ ''/key'') = None"
    by (simp add: sample_stdlib_def sample_client_def)
  have pg: "Parse sample_stdlib ?good =
              Inr (JObj [(''code'', JInt 0), (''key'', JStr ''LICENSE-KEY-12345'')])"
    by (simp add: sample_stdlib_def sample_Parse_def)
  have pb: "Parse sample_stdlib ?bad = Inr ?doc"
    by (simp add: sample_stdlib_def sample_Parse_def)
  have ug: "unmarshal_response sample_stdlib sample_decoders ?op ?good =
              (None, R_CreateKey \<lparr>ckr_Code = 0, ckr_Key = ''LICENSE-KEY-12345''\<rparr>)"
    by (simp add: unmarshal_response_def pg decoded_def sample_decoders_def sample_decode_key)
  have db: "decode_response sample_decoders ?op ?doc = (Some ?text, ?left)"
    by (simp add: decoded_def sample_decoders_def sample_decode_mismatch)

  let ?n1 = "answering (Inr \<lparr>StatusCode = 200, ReadAll = Inr ?good\<rparr>)"
  show w: "fst (invoke sample_stdlib sample_decoders sample_client ?op ?n1) =
          (R_CreateKey \<lparr>ckr_Code = 0, ckr_Key = ''LICENSE-KEY-12345''\<rparr>, None)"
    by (rule response_next_to_error [where resp = "\<lparr>StatusCode = 200, ReadAll = Inr ?good\<rparr>" and body = ?good,
           THEN conjunct1, THEN mp])
       (insert ok ug, simp add: answering_def)

  have "\<exists>resp body.
      NewRequest_error sample_stdlib (spec_verb ?op) (baseURL sample_client @ spec_path ?op) = None
      \<and> respond ?n1 (sent ?n1) (request_of sample_client ?op) = Inr resp
      \<and> ReadAll resp = Inr body \<and> StatusCode resp < 400
      \<and> unmarshal_response sample_stdlib sample_decoders ?op body =
          (None, fst (fst (invoke sample_stdlib sample_decoders sample_client ?op ?n1)))"
    by (rule response_next_to_error [THEN conjunct2, THEN conjunct1, THEN mp])
       (simp only: w snd_conv fst_conv)
  then obtain resp body
    where "respond ?n1 (sent ?n1) (request_of sample_client ?op) = Inr resp"
      and "ReadAll resp = Inr body"
      and "unmarshal_response sample_stdlib sample_decoders ?op body =
          (None, fst (fst (invoke sample_stdlib sample_decoders sample_client ?op ?n1)))"
    by blast
  then show "unmarshal_response sample_stdlib sample_decoders ?op ?good =
          (None, fst (fst (invoke sample_stdlib sample_decoders sample_client ?op ?n1)))"
    by (auto simp add: answering_def)

  let ?n2 = "answering (Inr \<lparr>StatusCode = 200, ReadAll = Inr ?bad\<rparr>)"
  have d: "fst (invoke sample_stdlib sample_decoders sample_client ?op ?n2) =
          (?left, Some \<lparr>Message = ''failed to unmarshal response: '' @ ?text, Code = - 1,
                     Status = Some (StatusCode \<lparr>StatusCode = 200, ReadAll = Inr ?bad\<rparr>)\<rparr>)"
    by (rule response_next_to_error
          [where body = ?bad and doc = ?doc,
           THEN conjunct2, THEN conjunct2, THEN conjunct1, THEN mp])
       (insert ok pb db, simp add: answering_def)
  from d show "fst (fst (invoke sample_stdlib sample_decoders sample_client ?op ?n2)) = ?left"
    by simp
  from d show "map_option Status
      (snd (fst (invoke sample_stdlib sample_decoders sample_client ?op ?n2))) = Some (Some 200)"
    by simp

  let ?n3 = "answering (Inr \<lparr>StatusCode = 200, ReadAll = Inr ''<html>''\<rparr>)"
  have "fst (invoke sample_stdlib sample_decoders sample_client ?op ?n3) =
          (zero_response ?op,
           Some \<lparr>Message = ''failed to unmarshal response: '' @ ''invalid character'', Code = - 1,
                  Status = Some (StatusCode \<lparr>StatusCode = 200, ReadAll = Inr ''<html>''\<rparr>)\<rparr>)"
    by (rule response_next_to_error
          [where body = "''<html>''",
           THEN conjunct2, THEN conjunct2, THEN conjunct2, THEN conjunct1, THEN mp])
       (insert ok sample_parse_malformed, simp add: answering_def)
  then show "fst (fst (invoke sample_stdlib sample_decoders sample_client ?op ?n3)) = ?zero"
    by (simp add: zero_CreateKeyResponse_def)

  let ?n4 = "answering (Inr \<lparr>StatusCode = 400, ReadAll = Inr ?bad\<rparr>)"
  have "fst (fst (invoke sample_stdlib sample_decoders sample_client ?op ?n4)) = zero_response ?op
        \<and> snd (fst (invoke sample_stdlib sample_decoders sample_client ?op ?n4)) \<noteq> None"
    by (rule response_next_to_error
          [where resp = "\<lparr>StatusCode = 400, ReadAll = Inr ?bad\<rparr>" and body = ?bad,
           THEN conjunct2, THEN conjunct2, THEN conjunct2, THEN conjunct2, THEN conjunct1,
           THEN mp])
       (insert ok, simp add: answering_def)
  then show "fst (fst (invoke sample_stdlib sample_decoders sample_client ?op ?n4)) = ?zero"
    by (simp add: zero_CreateKeyResponse_def)

  let ?n5 = "answering (Inr \<lparr>StatusCode = 200, ReadAll = Inl ''unexpected EOF''\<rparr>)"
  have "fst (fst (invoke sample_stdlib sample_decoders sample_client ?op ?n5)) = zero_response ?op
        \<and> snd (fst (invoke sample_stdlib sample_decoders sample_client ?op ?n5)) \<noteq> None"
    by (rule response_next_to_error
          [where resp = "\<lparr>StatusCode = 200, ReadAll = Inl ''unexpected EOF''\<rparr>"
             and err = "''unexpected EOF''",
           THEN conjunct2, THEN conjunct2, THEN conjunct2, THEN conjunct2, THEN conjunct2,
           THEN conjunct1, THEN mp])
       (insert ok, simp add: answering_def)
  then show "fst (fst (invoke sample_stdlib sample_decoders sample_client ?op ?n5)) = ?zero"
    by (simp add: zero_CreateKeyResponse_def)

  let ?n6 = "answering (Inl ''dial tcp: connection refused'')"
  have "fst (fst (invoke sample_stdlib sample_decoders sample_client ?op ?n6)) = zero_response ?op
        \<and> snd (fst (invoke sample_stdlib sample_decoders sample_client ?op ?n6)) \<noteq> None"
    by (rule response_next_to_error
          [where err = "''dial tcp: connection refused''",
           THEN conjunct2, THEN conjunct2, THEN conjunct2, THEN conjunct2, THEN conjunct2,
           THEN conjunct2, THEN conjunct1, THEN mp])
       (insert ok, simp add: answering_def)
  then show "fst (fst (invoke sample_stdlib sample_decoders sample_client ?op ?n6)) = ?zero"
    by (simp add: zero_CreateKeyResponse_def)

  have "fst (fst (invoke sample_stdlib sample_decoders (sample_client\<lparr>baseURL := ''http://no host''\<rparr>)
          ?op ?n2)) = zero_response ?op
        \<and> snd (fst (invoke sample_stdlib sample_decoders (sample_client\<lparr>baseURL := ''http://no host''\<rparr>)
          ?op ?n2)) \<noteq> None"
    by (rule response_next_to_error
          [THEN conjunct2, THEN conjunct2, THEN conjunct2, THEN conjunct2, THEN conjunct2,
           THEN conjunct2, THEN conjunct2, THEN mp])
       (simp add: sample_stdlib_def sample_client_def)
  then show "fst (fst (invoke sample_stdlib sample_decoders
      (sample_client\<lparr>baseURL := ''http://no host''\<rparr>) ?op ?n2)) = ?zero"
    by (simp add: zero_CreateKeyResponse_def)
qed

section \<open>Claims on the base URL and on optional fields\<close>

lemma request_of_URL:
  "URL (request_of c op) = baseURL c @ spec_path op"
  by (cases op) (simp_all add: the_request_def)

lemma request_of_Method:
  "Method (request_of c op) = spec_verb op"
  by (cases op) (simp_all add: the_request_def)

text \<open>
  C6. For every access token that is not empty: with an empty base URL argument the
  client is constructed with the base URL \<^verbatim>\<open>https://api.keymint.dev\<close>; with any other
  base URL argument it is constructed with exactly that string; and every operation of a
  client so constructed hands to \<^verbatim>\<open>http.NewRequest\<close> the base URL followed by the path
  of the operation, and sends no other request: one request with that URL when the
  request can be constructed, none otherwise.
\<close>

theorem base_URL_default_and_prefix:
  assumes "t \<noteq> ''''"
  shows "New t '''' = Inr \<lparr>baseURL = ''https://api.keymint.dev'', accessToken = t,
                           httpClient = \<lparr>Timeout = 30 * Second\<rparr>\<rparr>
     \<and> (b \<noteq> '''' \<longrightarrow>
          New t b = Inr \<lparr>baseURL = b, accessToken = t, httpClient = \<lparr>Timeout = 30 * Second\<rparr>\<rparr>)
     \<and> (\<forall>c. New t b = Inr c \<longrightarrow>
          (NewRequest_error L (spec_verb op) (baseURL c @ spec_path op) = None \<longrightarrow>
             (\<exists>r. sent (snd (invoke L D c op n)) = sent n @ [r]
                  \<and> URL r = baseURL c @ spec_path op \<and> Method r = spec_verb op))
          \<and> (NewRequest_error L (spec_verb op) (baseURL c @ spec_path op) \<noteq> None \<longrightarrow>
               sent (snd (invoke L D c op n)) = sent n))"
proof (intro conjI allI impI)
  show "New t '''' = Inr \<lparr>baseURL = ''https://api.keymint.dev'', accessToken = t,
                           httpClient = \<lparr>Timeout = 30 * Second\<rparr>\<rparr>"
    using assms by (simp add: New_def)
next
  assume "b \<noteq> ''''"
  then show "New t b = Inr \<lparr>baseURL = b, accessToken = t, httpClient = \<lparr>Timeout = 30 * Second\<rparr>\<rparr>"
    using assms by (simp add: New_def)
next
  fix c :: Client
  assume "NewRequest_error L (spec_verb op) (baseURL c @ spec_path op) = None"
  then have "sent (snd (invoke L D c op n)) = sent n @ [request_of c op]"
    by (simp add: invoke_sent)
  then show "\<exists>r. sent (snd (invoke L D c op n)) = sent n @ [r]
                  \<and> URL r = baseURL c @ spec_path op \<and> Method r = spec_verb op"
    by (simp add: request_of_URL request_of_Method)
next
  fix c :: Client
  assume "NewRequest_error L (spec_verb op) (baseURL c @ spec_path op) \<noteq> None"
  then show "sent (snd (invoke L D c op n)) = sent n"
    by (auto simp add: invoke_eq)
qed

theorem base_URL_default_and_prefix_witness:
  "New ''token'' '''' = Inr \<lparr>baseURL = ''https://api.keymint.dev'', accessToken = ''token'',
                           httpClient = \<lparr>Timeout = 30000000000\<rparr>\<rparr>
   \<and> New ''token'' ''http://localhost:8080'' = Inr sample_client
   \<and> map URL (sent (snd (invoke sample_stdlib sample_decoders sample_client
        (Op_GetCustomerWithKeys \<lparr>gcwkp_CustomerID = ''12345''\<rparr>)
        (answering (Inl ''unreachable''))))) = [''http://localhost:8080/customer/keys'']"
proof (intro conjI)
  have t: "''token'' \<noteq> ''''" by simp
  note th = base_URL_default_and_prefix [OF t, where b = "''http://localhost:8080''"
      and L = sample_stdlib and D = sample_decoders
      and op = "Op_GetCustomerWithKeys \<lparr>gcwkp_CustomerID = ''12345''\<rparr>"
      and n = "answering (Inl ''unreachable'')"]
  from th show "New ''token'' '''' =
      Inr \<lparr>baseURL = ''https://api.keymint.dev'', accessToken = ''token'',
           httpClient = \<lparr>Timeout = 30000000000\<rparr>\<rparr>"
    by (simp add: Second_def)
  from th show n: "New ''token'' ''http://localhost:8080'' = Inr sample_client"
    by (simp add: sample_client_def)
  have ok: "NewRequest_error sample_stdlib
      (spec_verb (Op_GetCustomerWithKeys \<lparr>gcwkp_CustomerID = ''12345''\<rparr>))
      (baseURL sample_client @ spec_path (Op_GetCustomerWithKeys \<lparr>gcwkp_CustomerID = ''12345''\<rparr>))
      = None"
    by (simp add: sample_stdlib_def sample_client_def)
  from th [THEN conjunct2, THEN conjunct2, THEN spec, THEN mp, OF n, THEN conjunct1, THEN mp, OF ok]
  obtain r where "sent (snd (invoke sample_stdlib sample_decoders sample_client
        (Op_GetCustomerWithKeys \<lparr>gcwkp_CustomerID = ''12345''\<rparr>)
        (answering (Inl ''unreachable'')))) = sent (answering (Inl ''unreachable'')) @ [r]"
    and "URL r = baseURL sample_client
           @ spec_path (Op_GetCustomerWithKeys \<lparr>gcwkp_CustomerID = ''12345''\<rparr>)"
    by blast
  then show "map URL (sent (snd (invoke sample_stdlib sample_decoders sample_client
        (Op_GetCustomerWithKeys \<lparr>gcwkp_CustomerID = ''12345''\<rparr>)
        (answering (Inl ''unreachable''))))) = [''http://localhost:8080/customer/keys'']"
    by (simp add: answering_def sample_client_def)
qed

text \<open>
  C7. A \<^verbatim>\<open>DeactivateKeyParams\<close> value without a host identifier is serialized to a JSON
  object with no member \<^verbatim>\<open>hostId\<close>; one with an empty host identifier is serialized
  with the member \<^verbatim>\<open>hostId\<close> holding the empty string. In general the member is there
  exactly when the host identifier is, with its value; and the document serialized is the
  body of the request that \<open>DeactivateKey\<close> sends.
\<close>

theorem hostId_absent_or_empty:
  "Marshal_DeactivateKeyParams \<lparr>dkp_ProductID = p, dkp_LicenseKey = k, dkp_HostID = None\<rparr> =
     Inr (JObj [(''productId'', JStr p), (''licenseKey'', JStr k)])
   \<and> Marshal_DeactivateKeyParams \<lparr>dkp_ProductID = p, dkp_LicenseKey = k, dkp_HostID = Some ''''\<rparr> =
     Inr (JObj [(''productId'', JStr p), (''licenseKey'', JStr k), (''hostId'', JStr '''')])
   \<and> (\<exists>ms. Marshal_DeactivateKeyParams q = Inr (JObj ms)
          \<and> map_of ms ''hostId'' = map_option JStr (dkp_HostID q)
          \<and> (NewRequest_error L ''POST'' (baseURL c @ ''/key/deactivate'') = None \<longrightarrow>
               (\<exists>r. sent (snd (DeactivateKey L D c q n)) = sent n @ [r]
                    \<and> Body r = Some (JObj ms))))"
proof (intro conjI)
  show "Marshal_DeactivateKeyParams \<lparr>dkp_ProductID = p, dkp_LicenseKey = k, dkp_HostID = None\<rparr> =
     Inr (JObj [(''productId'', JStr p), (''licenseKey'', JStr k)])"
    by (simp add: Marshal_DeactivateKeyParams_def omitempty_def)
next
  show "Marshal_DeactivateKeyParams \<lparr>dkp_ProductID = p, dkp_LicenseKey = k, dkp_HostID = Some ''''\<rparr> =
     Inr (JObj [(''productId'', JStr p), (''licenseKey'', JStr k), (''hostId'', JStr '''')])"
    by (simp add: Marshal_DeactivateKeyParams_def omitempty_def)
next
  let ?ms = "[(''productId'', JStr (dkp_ProductID q)), (''licenseKey'', JStr (dkp_LicenseKey q))]
             @ omitempty ''hostId'' (map_option JStr (dkp_HostID q))"
  have m: "Marshal_DeactivateKeyParams q = Inr (JObj ?ms)"
    by (simp add: Marshal_DeactivateKeyParams_def)
  have h: "map_of ?ms ''hostId'' = map_option JStr (dkp_HostID q)"
    by (cases "dkp_HostID q") (simp_all add: omitempty_def)
  have w: "NewRequest_error L ''POST'' (baseURL c @ ''/key/deactivate'') = None \<longrightarrow>
        (\<exists>r. sent (snd (DeactivateKey L D c q n)) = sent n @ [r] \<and> Body r = Some (JObj ?ms))"
  proof
    assume ok: "NewRequest_error L ''POST'' (baseURL c @ ''/key/deactivate'') = None"
    have "snd (DeactivateKey L D c q n) = snd (invoke L D c (Op_DeactivateKey q) n)"
      by (simp add: tagged_def split: prod.split)
    also have "\<dots> = n\<lparr>sent := sent n @ [request_of c (Op_DeactivateKey q)]\<rparr>"
      using ok by (simp add: invoke_eq)
    finally have "sent (snd (DeactivateKey L D c q n)) = sent n @ [request_of c (Op_DeactivateKey q)]"
      by simp
    moreover have "Body (request_of c (Op_DeactivateKey q)) = Some (JObj ?ms)"
      by (simp add: the_request_def m)
    ultimately show "\<exists>r. sent (snd (DeactivateKey L D c q n)) = sent n @ [r]
        \<and> Body r = Some (JObj ?ms)"
      by blast
  qed
  show "\<exists>ms. Marshal_DeactivateKeyParams q = Inr (JObj ms)
          \<and> map_of ms ''hostId'' = map_option JStr (dkp_HostID q)
          \<and> (NewRequest_error L ''POST'' (baseURL c @ ''/key/deactivate'') = None \<longrightarrow>
               (\<exists>r. sent (snd (DeactivateKey L D c q n)) = sent n @ [r]
                    \<and> Body r = Some (JObj ms)))"
    by (intro exI [of _ ?ms] conjI) (rule m, rule h, rule w)
qed


theorem hostId_absent_or_empty_witness:
  "Marshal_DeactivateKeyParams
     \<lparr>dkp_ProductID = ''p1'', dkp_LicenseKey = ''LICENSE-KEY-12345'', dkp_HostID = None\<rparr> =
     Inr (JObj [(''productId'', JStr ''p1''), (''licenseKey'', JStr ''LICENSE-KEY-12345'')])
   \<and> Marshal_DeactivateKeyParams
       \<lparr>dkp_ProductID = ''p1'', dkp_LicenseKey = ''LICENSE-KEY-12345'', dkp_HostID = Some ''''\<rparr> =
     Inr (JObj [(''productId'', JStr ''p1''), (''licenseKey'', JStr ''LICENSE-KEY-12345''),
                (''hostId'', JStr '''')])
   \<and> map Body (sent (snd (DeactivateKey sample_stdlib sample_decoders sample_client
        \<lparr>dkp_ProductID = ''p1'', dkp_LicenseKey = ''LICENSE-KEY-12345'', dkp_HostID = None\<rparr>
        (answering (Inl ''unreachable''))))) =
     [Some (JObj [(''productId'', JStr ''p1''), (''licenseKey'', JStr ''LICENSE-KEY-12345'')])]"
proof (intro conjI)
  let ?q = "\<lparr>dkp_ProductID = ''p1'', dkp_LicenseKey = ''LICENSE-KEY-12345'', dkp_HostID = None\<rparr>"
  let ?n = "answering (Inl ''unreachable'')"
  note th = hostId_absent_or_empty [where p = "''p1''" and k = "''LICENSE-KEY-12345''"
      and q = ?q and L = sample_stdlib and D = sample_decoders and c = sample_client and n = ?n]
  from th show m: "Marshal_DeactivateKeyParams ?q =
     Inr (JObj [(''productId'', JStr ''p1''), (''licenseKey'', JStr ''LICENSE-KEY-12345'')])"
    by (rule conjunct1)
  from th show "Marshal_DeactivateKeyParams
       \<lparr>dkp_ProductID = ''p1'', dkp_LicenseKey = ''LICENSE-KEY-12345'', dkp_HostID = Some ''''\<rparr> =
     Inr (JObj [(''productId'', JStr ''p1''), (''licenseKey'', JStr ''LICENSE-KEY-12345''),
                (''hostId'', JStr '''')])"
    by (rule conjunct2 [THEN conjunct1])
  have ok: "NewRequest_error sample_stdlib ''POST'' (baseURL sample_client @ ''/key/deactivate'') = None"
    by (simp add: sample_stdlib_def sample_client_def)
  from th [THEN conjunct2, THEN conjunct2] m ok
  obtain r where "sent (snd (DeactivateKey sample_stdlib sample_decoders sample_client ?q ?n))
        = sent ?n @ [r]"
    and "Body r = Some (JObj [(''productId'', JStr ''p1''),
                              (''licenseKey'', JStr ''LICENSE-KEY-12345'')])"
    by auto
  then show "map Body (sent (snd (DeactivateKey sample_stdlib sample_decoders sample_client ?q ?n))) =
     [Some (JObj [(''productId'', JStr ''p1''), (''licenseKey'', JStr ''LICENSE-KEY-12345'')])]"
    by (simp add: answering_def)
qed

end
